theory Spec2Isabelle
  imports Complex_Main "HOL-Library.AList"
begin

section \<open>Conventions\<close>

text \<open>
  The development embeds three parts of the Soul-Bot dashboard server: the adaptive scorer
  (class \<open>MLBridge\<close>), the price resolver and tradeability checker (class
  \<open>DexConnector\<close>) and the session controller with its ledger (the module-level
  \<open>state\<close> object of the dashboard server and its socket and REST handlers).

  The numbers of the ledger (portfolio, profit lock, trade profits, request amounts) and of
  the slippage computation are JavaScript numbers, that is IEEE-754 binary64 values: type
  \<open>double\<close> below, whose operations round as the machine does. The statistics of the
  scorer are idealised as \<^typ>\<open>real\<close>: what is shown about them is which fields a call
  writes. A price is passed through and compared with zero only, and is represented by its
  real value. Timestamps (\<open>Date.now()\<close>, milliseconds) are \<^typ>\<open>int\<close>. Every
  \<open>Math.random()\<close> draw and every clock read is an explicit argument. A value that
  is \<open>null\<close> or \<open>undefined\<close> in the source is \<open>None\<close>; where the source
  distinguishes the two, the datatypes \<open>jsval\<close> and \<open>jsaddr\<close> below are used.
\<close>

section \<open>JavaScript numbers\<close>

text \<open>Rounding a real to an integer, ties to the even neighbour.\<close>

definition rne :: "real \<Rightarrow> int" where
  "rne y = (let f = \<lfloor>y\<rfloor>; d = y - of_int f
            in if d < 1/2 then f else if 1/2 < d then f + 1 else if even f then f else f + 1)"

abbreviation pow2 :: "int \<Rightarrow> real" where
  "pow2 k \<equiv> 2 powi k"

text \<open>The exponent of the unit in the last place of the binary64 values around \<open>x\<close>:
  53 significant bits, and \<open>2 powi (- 1074)\<close> as the smallest spacing (subnormal
  numbers).\<close>

definition ulpExp :: "real \<Rightarrow> int" where
  "ulpExp x = max (\<lfloor>log 2 \<bar>x\<bar>\<rfloor> - 52) (- 1074)"

text \<open>The binary64 value nearest to a real, ties to even, before overflow is
  considered.\<close>

definition nearest :: "real \<Rightarrow> real" where
  "nearest x = (if x = 0 then 0 else of_int (rne (x / pow2 (ulpExp x))) * pow2 (ulpExp x))"

text \<open>A JavaScript number. The sign of a zero is not represented: none of the embedded
  code divides by a zero or prints one.\<close>

datatype double = NaN | PInf | NInf | Fin real

text \<open>The number an exact result becomes: the nearest binary64 value, an infinity when
  that is \<open>2 ^ 1024\<close> or beyond.\<close>

definition round64 :: "real \<Rightarrow> double" where
  "round64 x =
     (let y = nearest x
      in if 2 ^ 1024 \<le> y then PInf else if y \<le> - (2 ^ 1024) then NInf else Fin y)"

text \<open>The number a numeric literal or a decimal text denotes.\<close>

definition toDouble :: "double \<Rightarrow> double" where
  "toDouble d = (case d of Fin x \<Rightarrow> round64 x | _ \<Rightarrow> d)"

text \<open>\<open>a < b\<close> and \<open>a <= b\<close>: false when either side is \<open>NaN\<close>.\<close>

fun dlt :: "double \<Rightarrow> double \<Rightarrow> bool" where
  "dlt NaN b = False"
| "dlt a NaN = False"
| "dlt PInf b = False"
| "dlt a NInf = False"
| "dlt NInf b = True"
| "dlt a PInf = True"
| "dlt (Fin x) (Fin y) = (x < y)"

fun dle :: "double \<Rightarrow> double \<Rightarrow> bool" where
  "dle NaN b = False"
| "dle a NaN = False"
| "dle NInf b = True"
| "dle a PInf = True"
| "dle PInf b = False"
| "dle a NInf = False"
| "dle (Fin x) (Fin y) = (x \<le> y)"

fun dneg :: "double \<Rightarrow> double" where
  "dneg NaN = NaN"
| "dneg PInf = NInf"
| "dneg NInf = PInf"
| "dneg (Fin x) = Fin (- x)"

text \<open>\<open>a + b\<close> and \<open>a - b\<close>.\<close>

fun dadd :: "double \<Rightarrow> double \<Rightarrow> double" where
  "dadd NaN b = NaN"
| "dadd a NaN = NaN"
| "dadd PInf NInf = NaN"
| "dadd NInf PInf = NaN"
| "dadd PInf b = PInf"
| "dadd a PInf = PInf"
| "dadd NInf b = NInf"
| "dadd a NInf = NInf"
| "dadd (Fin x) (Fin y) = round64 (x + y)"

definition dsub :: "double \<Rightarrow> double \<Rightarrow> double" where
  "dsub a b = dadd a (dneg b)"

definition dsgn :: "double \<Rightarrow> int" where
  "dsgn d = (case d of NaN \<Rightarrow> 0 | PInf \<Rightarrow> 1 | NInf \<Rightarrow> - 1
             | Fin x \<Rightarrow> if x < 0 then - 1 else if x = 0 then 0 else 1)"

text \<open>The infinity of a sign; \<open>NaN\<close> for the sign of zero (infinity times zero).\<close>

definition dinf :: "int \<Rightarrow> double" where
  "dinf sg = (if sg = 0 then NaN else if 0 < sg then PInf else NInf)"

text \<open>\<open>a * b\<close> and \<open>a / b\<close>.\<close>

fun dmul :: "double \<Rightarrow> double \<Rightarrow> double" where
  "dmul NaN b = NaN"
| "dmul a NaN = NaN"
| "dmul (Fin x) (Fin y) = round64 (x * y)"
| "dmul a b = dinf (dsgn a * dsgn b)"

fun ddiv :: "double \<Rightarrow> double \<Rightarrow> double" where
  "ddiv NaN b = NaN"
| "ddiv a NaN = NaN"
| "ddiv (Fin x) (Fin y) = (if y = 0 then dinf (dsgn (Fin x)) else round64 (x / y))"
| "ddiv (Fin x) b = Fin 0"
| "ddiv a (Fin y) = dinf (dsgn a * (if y < 0 then - 1 else 1))"
| "ddiv a b = NaN"

text \<open>\<open>Math.min(a, b)\<close>: \<open>NaN\<close> when either argument is.\<close>

fun dmin :: "double \<Rightarrow> double \<Rightarrow> double" where
  "dmin NaN b = NaN"
| "dmin a NaN = NaN"
| "dmin a b = (if dle a b then a else b)"

text \<open>\<open>x || 0\<close> on a number: \<open>NaN\<close> and zero are falsy.\<close>

definition orZero :: "double \<Rightarrow> double" where
  "orZero d = (if d = NaN then Fin 0 else d)"

text \<open>\<open>Math.round(x)\<close>.\<close>

definition mathRound :: "double \<Rightarrow> double" where
  "mathRound d = (case d of Fin x \<Rightarrow> round64 (of_int \<lfloor>x + 1/2\<rfloor>) | _ \<Rightarrow> d)"

text \<open>A number written by \<open>JSON.stringify\<close> and read back: a non-finite number is
  written as \<open>null\<close>, which every later arithmetic use converts to zero.\<close>

definition jsonNumber :: "double \<Rightarrow> double" where
  "jsonNumber d = (case d of Fin x \<Rightarrow> Fin x | _ \<Rightarrow> Fin 0)"

section \<open>Strings that may be missing\<close>

text \<open>JavaScript truthiness of a string-or-null value: \<open>!x\<close> holds for \<open>null\<close>,
  \<open>undefined\<close> and the empty string.\<close>

definition falsy :: "string option \<Rightarrow> bool" where
  "falsy x = (case x of None \<Rightarrow> True | Some a \<Rightarrow> a = [])"

text \<open>The \<open>walletAddress\<close> property of a socket: \<open>undefined\<close> until the socket
  connects a wallet, the address while it is connected, \<open>null\<close> after
  \<open>disconnect_wallet\<close>.\<close>

datatype jsaddr = Undef | NullAddr | Addr string

text \<open>\<open>!walletAddress\<close> on a socket's address.\<close>

definition noWallet :: "jsaddr \<Rightarrow> bool" where
  "noWallet w = (case w of Addr a \<Rightarrow> a = [] | _ \<Rightarrow> True)"

text \<open>The address as a string-or-null value.\<close>

definition addrOf :: "jsaddr \<Rightarrow> string option" where
  "addrOf w = (case w of Addr a \<Rightarrow> Some a | _ \<Rightarrow> None)"

text \<open>\<open>socket.walletAddress === state.liveTrading.walletAddress\<close>, the right-hand
  side being \<open>null\<close> or a string: \<open>undefined\<close> equals neither.\<close>

definition sameAddr :: "jsaddr \<Rightarrow> string option \<Rightarrow> bool" where
  "sameAddr w x = (case w of Undef \<Rightarrow> False | NullAddr \<Rightarrow> x = None | Addr a \<Rightarrow> x = Some a)"

section \<open>AdaptiveScorer: class MLBridge\<close>

record tradingParams =
  learningRate :: real
  regularizationStrength :: real
  momentumFactor :: real
  dropoutRate :: real
  optimizerType :: "string option"

record MLBridge =
  enabled :: bool
  accuracy :: real
  correctPredictions :: nat
  totalPredictions :: nat
  successfulTrades :: nat
  failedTrades :: nat
  featureImportance :: "(string \<times> real) list"
  params :: tradingParams

text \<open>One entry of \<open>predictionDetails.contributingFactors\<close>.\<close>

record factor =
  feature :: string
  fvalue :: real
  impact :: real

text \<open>The \<open>predictionDetails\<close> object attached to a trade. \<open>prediction\<close> is
  \<open>None\<close> when the property is undefined; an absent \<open>contributingFactors\<close> is the
  empty list (the source reads \<open>predictionDetails.contributingFactors || []\<close>).\<close>

record predictionDetails =
  prediction :: "int option"
  probability :: "real option"
  contributingFactors :: "factor list"

text \<open>The object \<open>predict\<close> returns. \<open>isDisabled\<close> is \<open>False\<close> where the source
  leaves the property out.\<close>

record predictionRecord =
  rprediction :: int
  rconfidence :: real
  rprobability :: real
  rtimestamp :: int
  isDisabled :: bool

text \<open>The trade object \<open>learnFromTrade\<close> reads: \<open>trade.id\<close>, \<open>trade.success\<close>,
  \<open>trade.predictionDetails\<close>.\<close>

record mlTrade =
  mid :: string
  msuccess :: bool
  mdetails :: "predictionDetails option"

text \<open>The nine \<open>Math.random()\<close> draws of one \<open>train()\<close> call, in call order: five in
  \<open>tuneHyperparameters\<close>, then base accuracy and the three improvements.\<close>

record trainRandom =
  rndLearningRate :: real
  rndRegularization :: real
  rndMomentum :: real
  rndDropout :: real
  rndOptimizer :: real
  rndBase :: real
  rndBalancing :: real
  rndHyper :: real
  rndFeature :: real

definition newMLBridge :: MLBridge where
  "newMLBridge = \<lparr> enabled = True, accuracy = 85, correctPredictions = 0,
     totalPredictions = 0, successfulTrades = 0, failedTrades = 0,
     featureImportance =
       [(''profitPercentage'', 0.35), (''slippage'', 0.10), (''liquidity'', 0.10),
        (''volume'', 0.10), (''volatility'', 0.05), (''rsi'', 0.10), (''macd'', 0.05),
        (''momentum'', 0.05), (''trendAlignment'', 0.05), (''timeOfDay'', 0.05)],
     params = \<lparr> learningRate = 0.01, regularizationStrength = 0.001,
       momentumFactor = 0.9, dropoutRate = 0.2, optimizerType = Some ''adam'' \<rparr> \<rparr>"

definition setEnabled :: "bool \<Rightarrow> MLBridge \<Rightarrow> MLBridge" where
  "setEnabled e b = b\<lparr>enabled := e\<rparr>"

definition optimizers :: "string list" where
  "optimizers = [''adam'', ''sgd'', ''rmsprop'', ''adagrad'']"

definition tuneHyperparameters :: "trainRandom \<Rightarrow> MLBridge \<Rightarrow> MLBridge" where
  "tuneHyperparameters r b =
     (let i = nat \<lfloor>rndOptimizer r * 4\<rfloor> in
      b\<lparr>params := \<lparr>
          learningRate = 0.005 + rndLearningRate r * 0.025,
          regularizationStrength = 0.0005 + rndRegularization r * 0.002,
          momentumFactor = 0.85 + rndMomentum r * 0.1,
          dropoutRate = 0.15 + rndDropout r * 0.2,
          optimizerType = (if i < length optimizers then Some (optimizers ! i) else None)
        \<rparr>\<rparr>)"

definition train :: "trainRandom \<Rightarrow> MLBridge \<Rightarrow> MLBridge" where
  "train r b =
     (if successfulTrades b + failedTrades b = 0 then b
      else
        let b1 = tuneHyperparameters r b;
            baseAccuracy = 75 + rndBase r * 10;
            balancingImprovement = 2 + rndBalancing r * 3;
            hyperparameterImprovement = 1 + rndHyper r * 3;
            featureEngineeringImprovement = 2 + rndFeature r * 3
        in b1\<lparr>accuracy := min 97 (baseAccuracy + balancingImprovement +
               hyperparameterImprovement + featureEngineeringImprovement)\<rparr>)"

definition calculateProfitImpact :: "real \<Rightarrow> real" where
  "calculateProfitImpact p =
     (if p \<ge> 2.0 then 0.35 else if p \<ge> 1.5 then 0.3 else if p \<ge> 1.0 then 0.25
      else if p \<ge> 0.5 then 0.15 else if p \<ge> 0.2 then 0.05 else - 0.1)"

definition calculateVolatilityImpact :: "real \<Rightarrow> real" where
  "calculateVolatilityImpact v =
     (if v < 0.005 then - 0.05 else if v < 0.01 then 0.05 else if v < 0.03 then 0.1
      else if v < 0.05 then 0.05 else - 0.1)"

definition calculateTimeImpact :: "real \<Rightarrow> real" where
  "calculateTimeImpact h =
     (if h \<ge> 2 \<and> h \<le> 5 then - 0.05 else if h \<ge> 12 \<and> h \<le> 15 then 0.1
      else if h \<ge> 20 \<and> h \<le> 23 then 0.05 else 0)"

definition calculateRSIImpact :: "real \<Rightarrow> real" where
  "calculateRSIImpact rsi = (if rsi < 30 then 0.15 else if rsi > 70 then - 0.15 else 0)"

text \<open>The \<open>switch (feature)\<close> of \<open>predict\<close>.\<close>

definition featureImpact :: "string \<Rightarrow> real \<Rightarrow> real" where
  "featureImpact f v =
     (if f = ''profitPercentage'' then calculateProfitImpact v
      else if f = ''slippage'' then - min 0.5 (v / 2)
      else if f = ''liquidity'' then min 0.3 (log 10 (max 1 v) / 7)
      else if f = ''volume'' then min 0.3 (log 10 (max 1 v) / 8)
      else if f = ''volatility'' then calculateVolatilityImpact v
      else if f = ''rsi'' then calculateRSIImpact v
      else if f = ''macd'' then min 0.2 (max (- 0.2) (v / 10))
      else if f = ''momentum'' then min 0.2 (max (- 0.2) (v * 2))
      else if f = ''trendAlignment'' then v * 0.15
      else if f = ''timeOfDay'' then calculateTimeImpact v
      else 0)"

text \<open>The loop \<open>for (const feature in this.featureImportance)\<close>: the running
  probability after the features of \<open>ws\<close>. \<open>ed\<close> is the engineered data, a feature
  that is \<open>undefined\<close> there being \<open>None\<close>.\<close>

fun accumulate :: "(string \<Rightarrow> real option) \<Rightarrow> (string \<times> real) list \<Rightarrow> real \<Rightarrow> real" where
  "accumulate ed [] p = p"
| "accumulate ed ((f, w) # ws) p =
     (case ed f of
        Some v \<Rightarrow> if w > 0 then accumulate ed ws (p + featureImpact f v * w)
                  else accumulate ed ws p
      | None \<Rightarrow> accumulate ed ws p)"

text \<open>\<open>predict(data)\<close>. \<open>r1\<close> and \<open>r2\<close> are the two random draws of the disabled
  branch, \<open>now\<close> the clock, and \<open>ed\<close> the result of \<open>engineerFeatures\<close> on the input
  (clock- and history-derived indicators, which build a fresh object and write nothing
  to the bridge). The bridge is returned with the record, as the method could write to
  \<open>this\<close>.\<close>

definition predict ::
  "real \<Rightarrow> real \<Rightarrow> int \<Rightarrow> (string \<Rightarrow> real option) \<Rightarrow> MLBridge \<Rightarrow> predictionRecord \<times> MLBridge" where
  "predict r1 r2 now ed b =
     (if \<not> enabled b then
        (\<lparr> rprediction = (if r1 > 0.4 then 1 else 0), rconfidence = 0.5,
           rprobability = r2 * 0.5 + 0.4, rtimestamp = now, isDisabled = True \<rparr>, b)
      else
        let successProbability = max 0.05 (min 0.95 (accumulate ed (featureImportance b) 0.5));
            predictionCertainty = \<bar>successProbability - 0.5\<bar> * 2;
            historicalAccuracyFactor = (if accuracy b = 0 then 85 else accuracy b) / 100;
            confidence = 0.5 + predictionCertainty * 0.3 + historicalAccuracyFactor * 0.2
        in (\<lparr> rprediction = (if successProbability > 0.5 then 1 else 0),
              rconfidence = min 0.98 confidence, rprobability = successProbability,
              rtimestamp = now, isDisabled = False \<rparr>, b))"

text \<open>The weight adjustment for one contributing factor of a wrong prediction.\<close>

definition adjustWeight :: "factor \<Rightarrow> (string \<times> real) list \<Rightarrow> (string \<times> real) list" where
  "adjustWeight fa ws =
     (let currentWeight = (case map_of ws (feature fa) of Some w \<Rightarrow> w | None \<Rightarrow> 0);
          adjustment = - sgn (impact fa) * 0.01
      in AList.update (feature fa) (max 0.01 (min 0.5 (currentWeight + adjustment))) ws)"

text \<open>\<open>learnFromTrade(trade)\<close>; the Boolean is the method's return value. \<open>r\<close> feeds
  the \<open>train()\<close> call of every fiftieth learning event.\<close>

definition learnFromTrade :: "trainRandom \<Rightarrow> mlTrade \<Rightarrow> MLBridge \<Rightarrow> bool \<times> MLBridge" where
  "learnFromTrade r t b =
     (if \<not> enabled b then (False, b)
      else
        let b1 = b\<lparr>totalPredictions := totalPredictions b + 1\<rparr> in
        case mdetails t of
          None \<Rightarrow>
            (False, if msuccess t then b1\<lparr>successfulTrades := successfulTrades b1 + 1\<rparr>
                    else b1\<lparr>failedTrades := failedTrades b1 + 1\<rparr>)
        | Some pd \<Rightarrow>
            let predictedSuccess = (prediction pd = Some 1);
                wasCorrect = (predictedSuccess = msuccess t);
                b2 = (if wasCorrect then b1\<lparr>correctPredictions := correctPredictions b1 + 1\<rparr>
                      else b1\<lparr>featureImportance :=
                             fold adjustWeight (contributingFactors pd) (featureImportance b1)\<rparr>);
                b3 = (if msuccess t then b2\<lparr>successfulTrades := successfulTrades b2 + 1\<rparr>
                      else b2\<lparr>failedTrades := failedTrades b2 + 1\<rparr>);
                b4 = b3\<lparr>accuracy :=
                       (if totalPredictions b3 > 0
                        then real (correctPredictions b3) / real (totalPredictions b3) * 100
                        else 85)\<rparr>;
                b5 = (if totalPredictions b4 > 0 \<and> totalPredictions b4 mod 50 = 0
                      then train r b4 else b4)
            in (True, b5))"

section \<open>PriceResolver and TradeabilityChecker: class DexConnector\<close>

text \<open>A JavaScript value read from an upstream payload where a number is expected.\<close>

datatype jsval = Undefined | Null | Num real

text \<open>The outcome of one \<open>axios\<close> call: the promise rejects (\<open>Threw\<close>) or resolves
  with a status and the part of the body the code reads.\<close>

datatype 'a reply = Threw | Reply nat 'a

text \<open>The network requests a call issues, in order.\<close>

datatype request =
    HeliusGetAsset string
  | JupiterPrice string
  | JupiterPriceDirect string
  | JupiterQuote string string double nat

text \<open>The body of a quote response; \<open>outAmount\<close> is \<open>None\<close> when missing. Amounts
  are numbers (or numeric strings) in plain decimal notation, given by their value.\<close>

record quoteData =
  outAmount :: "real option"

text \<open>The upstream services. For the three price endpoints the payload is \<open>None\<close> when
  the body has no entry for the asset (\<open>data.result\<close>, respectively
  \<open>data.data[mintAddress]\<close>, is missing) and otherwise the value of the price property
  (\<open>price_per_token\<close>, respectively \<open>price\<close>), \<open>Undefined\<close> when that is absent.\<close>

record upstream =
  helius :: "string \<Rightarrow> jsval option reply"
  jupiterPrice :: "string \<Rightarrow> jsval option reply"
  jupiterPriceDirect :: "string \<Rightarrow> jsval option reply"
  jupiterQuote :: "string \<Rightarrow> string \<Rightarrow> double \<Rightarrow> nat \<Rightarrow> quoteData option reply"

record cacheEntry =
  price :: real
  timestamp :: int
  source :: string

record DexConnector =
  priceCache :: "string \<Rightarrow> cacheEntry option"
  priceCacheTTL :: int
  heliusConfigured :: bool
  slippageBps :: nat

text \<open>The connector the server constructs: an empty cache, a TTL of sixty seconds, a
  Helius key (the constructor falls back to a built-in one) and \<open>slippageBps\<close> 50.\<close>

definition newDexConnector :: DexConnector where
  "newDexConnector = \<lparr> priceCache = (\<lambda>_. None), priceCacheTTL = 60 * 1000,
     heliusConfigured = True, slippageBps = 50 \<rparr>"

text \<open>The Helius block of \<open>getTokenPrice\<close>: the values of \<open>price\<close> and \<open>source\<close>
  after it, from \<open>null\<close> and \<open>'Unknown'\<close>.\<close>

definition heliusBlock :: "jsval option reply \<Rightarrow> jsval \<times> string" where
  "heliusBlock rep =
     (case rep of
        Threw \<Rightarrow> (Null, ''Unknown'')
      | Reply st d \<Rightarrow>
          (if st = 200 then
             (case d of
                None \<Rightarrow> (Null, ''Unknown'')
              | Some v \<Rightarrow> (if v = Undefined then (Null, ''Unknown'') else (v, ''Helius'')))
           else (Null, ''Unknown'')))"

text \<open>The alternative Jupiter endpoint, tried when the first Jupiter response resolved
  without a usable entry: the price is taken only when truthy (a non-zero number).\<close>

definition directBlock :: "jsval option reply \<Rightarrow> string \<Rightarrow> jsval \<times> string" where
  "directBlock rep src =
     (case rep of
        Threw \<Rightarrow> (Null, src)
      | Reply st d \<Rightarrow>
          (if st = 200 then
             (case d of
                Some (Num x) \<Rightarrow> (if x \<noteq> 0 then (Num x, ''Jupiter-Direct'') else (Null, src))
              | _ \<Rightarrow> (Null, src))
           else (Null, src)))"

text \<open>The Jupiter fallback block, entered with \<open>price === null\<close>: price, source and
  the requests issued.\<close>

definition jupiterBlock :: "upstream \<Rightarrow> string \<Rightarrow> string \<Rightarrow> (jsval \<times> string) \<times> request list" where
  "jupiterBlock up mintAddress src =
     (case jupiterPrice up mintAddress of
        Threw \<Rightarrow> ((Null, src), [JupiterPrice mintAddress])
      | Reply st d \<Rightarrow>
          (case d of
             Some v \<Rightarrow>
               (if st = 200 then ((v, ''Jupiter''), [JupiterPrice mintAddress])
                else (directBlock (jupiterPriceDirect up mintAddress) src,
                      [JupiterPrice mintAddress, JupiterPriceDirect mintAddress]))
           | None \<Rightarrow>
               (directBlock (jupiterPriceDirect up mintAddress) src,
                [JupiterPrice mintAddress, JupiterPriceDirect mintAddress])))"

text \<open>The part of \<open>getTokenPrice\<close> between the cache check and the cache update:
  \<open>price\<close> and \<open>source\<close> after the Helius and Jupiter blocks, and the requests
  issued.\<close>

definition queryUpstreams ::
  "upstream \<Rightarrow> string \<Rightarrow> DexConnector \<Rightarrow> (jsval \<times> string) \<times> request list" where
  "queryUpstreams up mintAddress c =
     (let (ps, reqs1) =
            (if heliusConfigured c
             then (heliusBlock (helius up mintAddress), [HeliusGetAsset mintAddress])
             else ((Null, ''Unknown''), []));
          (ps2, reqs2) =
            (if fst ps = Null then jupiterBlock up mintAddress (snd ps) else (ps, []))
      in (ps2, reqs1 @ reqs2))"

text \<open>The cache check: the cached price while the entry is younger than the TTL.\<close>

definition cachedPrice :: "int \<Rightarrow> string \<Rightarrow> DexConnector \<Rightarrow> real option" where
  "cachedPrice now mintAddress c =
     (case priceCache c mintAddress of
        Some cached \<Rightarrow>
          if now - timestamp cached < priceCacheTTL c then Some (price cached) else None
      | None \<Rightarrow> None)"

text \<open>\<open>getTokenPrice(mintAddress)\<close>: the returned price (\<open>None\<close> for \<open>null\<close>), the
  requests issued and the connector afterwards.\<close>

definition getTokenPrice ::
  "upstream \<Rightarrow> int \<Rightarrow> string \<Rightarrow> DexConnector \<Rightarrow> real option \<times> request list \<times> DexConnector" where
  "getTokenPrice up now mintAddress c =
     (if mintAddress = [] then (None, [], c)
      else
        case cachedPrice now mintAddress c of
          Some p \<Rightarrow> (Some p, [], c)
        | None \<Rightarrow>
            let (ps, reqs) = queryUpstreams up mintAddress c
            in case fst ps of
                 Num x \<Rightarrow>
                   if x > 0
                   then (Some x, reqs,
                         c\<lparr>priceCache := (priceCache c)(mintAddress \<mapsto>
                             \<lparr> price = x, timestamp = now, source = snd ps \<rparr>)\<rparr>)
                   else (None, reqs, c)
               | _ \<Rightarrow> (None, reqs, c))"

text \<open>\<open>getQuote(inputMint, outputMint, amount, slippageBps)\<close> on string arguments and
  a numeric amount: the quote (\<open>None\<close> for \<open>null\<close>) and the requests issued. A
  \<open>slippageBps\<close> of \<open>0\<close> falls back to the connector's default, as
  \<open>slippageBps || this.slippageBps\<close> does.\<close>

definition getQuote ::
  "upstream \<Rightarrow> string \<Rightarrow> string \<Rightarrow> double \<Rightarrow> nat \<Rightarrow> DexConnector \<Rightarrow> quoteData option \<times> request list" where
  "getQuote up inputMint outputMint amount slip c =
     (if inputMint = [] \<or> outputMint = [] \<or> amount = NaN \<or> amount = Fin 0 \<or> dle amount (Fin 0)
      then (None, [])
      else
        let a = mathRound amount;
            sl = (if slip = 0 then slippageBps c else slip)
        in ((case jupiterQuote up inputMint outputMint a sl of
               Threw \<Rightarrow> None
             | Reply st d \<Rightarrow> (if st = 200 then d else None)),
            [JupiterQuote inputMint outputMint a sl]))"

definition USDC_ADDRESS :: string where
  "USDC_ADDRESS = ''EPjFWdd5AufqSSqeM2qN1xzybapC8G4wEGGkZwyTDt1v''"

text \<open>\<open>parseInt\<close> on a positive amount in plain decimal notation: the integer part, as
  a number.\<close>

definition parseInt :: "real \<Rightarrow> double" where
  "parseInt x = round64 (of_int \<lfloor>x\<rfloor>)"

text \<open>The object \<open>isTokenTradeable\<close> returns, without the echoed addresses and quotes.\<close>

record tradeability =
  tradeable :: bool
  reason :: "string option"
  impliedSlippage :: "double option"
  tokenPrice :: "real option"

definition notTradeable :: "string \<Rightarrow> tradeability" where
  "notTradeable why =
     \<lparr> tradeable = False, reason = Some why, impliedSlippage = None, tokenPrice = None \<rparr>"

text \<open>The quote's \<open>outAmount\<close> when it passes
  \<open>!(!q || !q.outAmount || q.outAmount <= 0)\<close>; the comparison is made on the number
  the amount converts to.\<close>

definition usableOut :: "quoteData option \<Rightarrow> real option" where
  "usableOut q =
     (case q of
        None \<Rightarrow> None
      | Some d \<Rightarrow> (case outAmount d of
                     None \<Rightarrow> None
                   | Some out \<Rightarrow>
                       if out = 0 \<or> dle (round64 out) (Fin 0) then None else Some out))"

text \<open>\<open>isTokenTradeable(tokenAddress)\<close>: result, requests issued, connector afterwards.
  Neither \<open>getTokenPrice\<close> nor \<open>getQuote\<close> throws, so the \<open>catch\<close> branch has no
  counterpart.\<close>

definition isTokenTradeable ::
  "upstream \<Rightarrow> int \<Rightarrow> string \<Rightarrow> DexConnector \<Rightarrow> tradeability \<times> request list \<times> DexConnector" where
  "isTokenTradeable up now tokenAddress c =
     (if tokenAddress = [] then (notTradeable ''No token address provided'', [], c)
      else
        let (tp, reqs1, c1) = getTokenPrice up now tokenAddress c in
        case (case tp of None \<Rightarrow> None | Some p \<Rightarrow> if p = 0 \<or> p \<le> 0 then None else Some p) of
          None \<Rightarrow> (notTradeable ''No price data available'', reqs1, c1)
        | Some p \<Rightarrow>
            let (buyQuote, reqs2) = getQuote up USDC_ADDRESS tokenAddress (Fin 1000000) 100 c1 in
            case usableOut buyQuote of
              None \<Rightarrow> (notTradeable ''Cannot get buy quote'', reqs1 @ reqs2, c1)
            | Some buyOut \<Rightarrow>
                let outAmountP = parseInt buyOut;
                    (sellQuote, reqs3) = getQuote up tokenAddress USDC_ADDRESS outAmountP 100 c1
                in case usableOut sellQuote of
                     None \<Rightarrow> (notTradeable ''Cannot get sell quote'', reqs1 @ reqs2 @ reqs3, c1)
                   | Some sellOut \<Rightarrow>
                       let usdcReturned = ddiv (parseInt sellOut) (Fin 1000000);
                           slippage = dsub (Fin 1) usdcReturned
                       in if dlt (round64 (1 / 10)) slippage
                          then (\<lparr> tradeable = False,
                                   reason = Some ''Excessive slippage indicates low liquidity'',
                                   impliedSlippage = Some (dmul slippage (Fin 100)),
                                   tokenPrice = Some p \<rparr>,
                                reqs1 @ reqs2 @ reqs3, c1)
                          else (\<lparr> tradeable = True, reason = None,
                                   impliedSlippage = Some (dmul slippage (Fin 100)),
                                   tokenPrice = Some p \<rparr>,
                                reqs1 @ reqs2 @ reqs3, c1))"

section \<open>SessionController and PortfolioLedger: the dashboard server\<close>

subsection \<open>The \<open>state\<close> object\<close>

text \<open>\<open>state.portfolio\<close>. The source has both a \<open>value\<close> and a \<open>balance\<close>
  property; \<open>pvalue\<close> is \<open>value\<close>.\<close>

record portfolio =
  pvalue :: double
  totalPnL :: double
  dailyReturn :: double
  mlAccuracy :: real
  balance :: double

record lockEntry =
  lockTradeId :: string
  lockProfit :: double
  lockAmount :: double
  lockTime :: int

text \<open>\<open>state.profitLock\<close>; \<open>lockEnabled\<close> is its \<open>enabled\<close> property.
  \<open>percentage\<close> is the number the stored value converts to wherever it is compared or
  multiplied: \<open>NaN\<close> for a stored value that is not numeric.\<close>

record profitLock =
  lockEnabled :: bool
  percentage :: double
  lockedAmount :: double
  lockedBalance :: double
  totalLocked :: double
  lastLockTime :: "int option"
  history :: "lockEntry list"

text \<open>\<open>state.mlStats\<close>: \<open>predictions\<close>, \<open>correctPredictions\<close>, \<open>accuracy\<close>.\<close>

record mlStats =
  predictions :: nat
  statsCorrect :: nat
  statsAccuracy :: real

text \<open>A trade of \<open>state.trades\<close>, with the properties the handlers read. \<open>profit\<close>
  is \<open>parseFloat(trade.profit)\<close>.\<close>

record trade =
  tradeId :: string
  profit :: double
  status :: string
  success :: bool
  mlScore :: real
  details :: "predictionDetails option"

text \<open>The JSON file \<open>saveWalletState\<close> writes (without the time series).\<close>

record walletState =
  wsPortfolio :: portfolio
  wsTrades :: "trade list"
  wsProfitLock :: profitLock
  wsMlStats :: mlStats
  savedAt :: int

text \<open>
  The module-level \<open>state\<close>, with \<open>tradingControl.mode\<close>, \<open>.startTime\<close>,
  \<open>.isRunning\<close> and \<open>liveTrading.walletAddress\<close> as fields of their own, together
  with what the handlers reach besides it: \<open>socket.walletAddress\<close> of every socket
  (by socket number), the wallet files under \<open>DATA_DIR/wallets\<close> (by file name, the
  truncated hash of the address), the \<open>mlBridge\<close> object, and the number of
  \<open>generateAndProcessTrade\<close> calls that have passed their guards and are suspended at
  an \<open>await\<close>.
\<close>

record state =
  trades :: "trade list"
  portfolio :: portfolio
  mode :: string
  startTime :: "int option"
  isRunning :: bool
  stats :: mlStats
  mlEnabled :: bool
  lock :: profitLock
  walletAddress :: "string option"
  sockets :: "nat \<Rightarrow> jsaddr"
  files :: "string \<Rightarrow> walletState option"
  bridge :: MLBridge
  inFlight :: nat

text \<open>\<open>DEMO_MODE = process.env.DEMO_MODE === 'true' || true\<close> is \<open>true\<close> whatever the
  environment says, and \<open>state.liveTrading.enabled = !DEMO_MODE\<close> is never assigned
  again.\<close>

definition DEMO_MODE :: bool where
  "DEMO_MODE = True"

definition liveTradingEnabled :: bool where
  "liveTradingEnabled = (\<not> DEMO_MODE)"

text \<open>The initial \<open>state\<close>; \<open>envWallet\<close> is \<open>process.env.LIVE_WALLET_ADDRESS\<close> and
  \<open>disk\<close> the wallet files found at start-up.\<close>

definition initialState :: "string option \<Rightarrow> (string \<Rightarrow> walletState option) \<Rightarrow> state" where
  "initialState envWallet disk =
     \<lparr> trades = [],
       portfolio = \<lparr> pvalue = Fin 50, totalPnL = Fin 0, dailyReturn = Fin 0, mlAccuracy = 85,
                     balance = Fin 50 \<rparr>,
       mode = ''demo'', startTime = None, isRunning = False,
       stats = \<lparr> predictions = 0, statsCorrect = 0, statsAccuracy = 85 \<rparr>,
       mlEnabled = True,
       lock = \<lparr> lockEnabled = True, percentage = Fin 20, lockedAmount = Fin 0,
                lockedBalance = Fin 0, totalLocked = Fin 0, lastLockTime = None, history = [] \<rparr>,
       walletAddress = (if falsy envWallet then None else envWallet),
       sockets = (\<lambda>_. Undef), files = disk, bridge = newMLBridge, inFlight = 0 \<rparr>"

subsection \<open>PortfolioLedger\<close>

text \<open>\<open>updatePortfolio(trade)\<close> at clock \<open>now\<close>. A \<open>startTime\<close> of \<open>null\<close> counts
  as \<open>0\<close> in the subtraction. \<open>portfolio.value\<close> is a number in every state of the
  model, so the \<open>typeof\<close> repair at the top has no counterpart.\<close>

definition updatePortfolio :: "int \<Rightarrow> trade \<Rightarrow> state \<Rightarrow> state" where
  "updatePortfolio now t s =
     (let profitAmount = orZero (profit t);
          value' = dadd (pvalue (portfolio s)) profitAmount;
          pnl' = dadd (totalPnL (portfolio s)) profitAmount;
          daysPassed =
            ddiv (round64 (of_int (now - (case startTime s of Some t0 \<Rightarrow> t0 | None \<Rightarrow> 0))))
                 (Fin (24 * 60 * 60 * 1000));
          p2 = (portfolio s)\<lparr> pvalue := value', totalPnL := pnl',
                 dailyReturn :=
                   (if dlt (Fin 0) daysPassed
                    then dmul (ddiv pnl' (dmul daysPassed (Fin 100))) (Fin 100)
                    else dailyReturn (portfolio s)) \<rparr>;
          l = lock s;
          l2 = (if lockEnabled l \<and> dlt (Fin 0) profitAmount
                then let amount = ddiv (dmul profitAmount (percentage l)) (Fin 100)
                     in l\<lparr> lockedBalance := dadd (lockedBalance l) amount,
                           totalLocked := dadd (totalLocked l) amount,
                           lastLockTime := Some now,
                           history := history l @
                             [\<lparr> lockTradeId = tradeId t, lockProfit = profitAmount,
                                lockAmount = amount, lockTime = now \<rparr>] \<rparr>
                else l)
      in s\<lparr> portfolio := p2, lock := l2 \<rparr>)"

text \<open>The portfolio message the server emits, before \<open>toFixed\<close> formatting.\<close>

record portfolioMsg =
  msgBalance :: double
  msgTotalPnL :: double
  msgDailyReturn :: double
  msgMlAccuracy :: real
  msgLockedProfit :: double

text \<open>The message of \<open>sendInitialState\<close> (on connect) and the broadcast that ends
  \<open>updatePortfolio\<close>: both report \<open>portfolio.value\<close> as \<open>balance\<close>.\<close>

definition sendInitialState :: "state \<Rightarrow> portfolioMsg" where
  "sendInitialState s =
     \<lparr> msgBalance = pvalue (portfolio s), msgTotalPnL = totalPnL (portfolio s),
       msgDailyReturn = dailyReturn (portfolio s), msgMlAccuracy = statsAccuracy (stats s),
       msgLockedProfit = lockedBalance (lock s) \<rparr>"

definition updatePortfolioBroadcast :: "state \<Rightarrow> portfolioMsg" where
  "updatePortfolioBroadcast s =
     \<lparr> msgBalance = pvalue (portfolio s), msgTotalPnL = totalPnL (portfolio s),
       msgDailyReturn = dailyReturn (portfolio s), msgMlAccuracy = statsAccuracy (stats s),
       msgLockedProfit = lockedBalance (lock s) \<rparr>"

text \<open>The broadcast of the withdrawal handler reports \<open>portfolio.balance\<close>.\<close>

definition withdrawBroadcast :: "state \<Rightarrow> portfolioMsg" where
  "withdrawBroadcast s =
     \<lparr> msgBalance = balance (portfolio s), msgTotalPnL = totalPnL (portfolio s),
       msgDailyReturn = dailyReturn (portfolio s), msgMlAccuracy = statsAccuracy (stats s),
       msgLockedProfit = lockedBalance (lock s) \<rparr>"

text \<open>\<open>POST /api/profit-lock/withdraw\<close>. \<open>amount\<close> is \<open>parseFloat\<close> of the body's
  \<open>amount\<close>, \<open>None\<close> when the property is missing. An error message (status 400) or
  the withdrawn amount.\<close>

definition withdraw :: "double option \<Rightarrow> state \<Rightarrow> (string + double) \<times> state" where
  "withdraw amount s =
     (case amount of
        None \<Rightarrow> (Inl ''Invalid amount'', s)
      | Some a \<Rightarrow>
          if a = NaN \<or> dle a (Fin 0) then (Inl ''Invalid amount'', s)
          else
            let withdrawAmount = dmin a (lockedBalance (lock s)) in
            if dle withdrawAmount (Fin 0) then (Inl ''No locked profits available to withdraw'', s)
            else (Inr withdrawAmount,
                  s\<lparr> lock := (lock s)\<lparr> lockedBalance := dsub (lockedBalance (lock s)) withdrawAmount \<rparr>,
                     portfolio := (portfolio s)\<lparr> balance := dadd (balance (portfolio s)) withdrawAmount \<rparr> \<rparr>))"

text \<open>The \<open>portfolio\<close> messages the withdrawal handler broadcasts: one, after the
  ledger is written, when the request is accepted.\<close>

definition withdrawEmits :: "double option \<Rightarrow> state \<Rightarrow> portfolioMsg list" where
  "withdrawEmits amount s =
     (case fst (withdraw amount s) of
        Inl msg \<Rightarrow> []
      | Inr w \<Rightarrow> [withdrawBroadcast (snd (withdraw amount s))])"

text \<open>\<open>POST /api/profit-lock/configure\<close> with the body's \<open>percentage\<close> and
  \<open>enabled\<close> (\<open>None\<close> when undefined): an error message (status 400) or success. The
  percentage is given by the number it converts to in the two comparisons, \<open>NaN\<close> for a
  value that is not numeric; such a value passes both comparisons and is stored.\<close>

definition configure :: "double option \<Rightarrow> bool option \<Rightarrow> state \<Rightarrow> (string + unit) \<times> state" where
  "configure pct en s =
     (let s1 = (case en of
                  Some e \<Rightarrow> s\<lparr> lock := (lock s)\<lparr> lockEnabled := e \<rparr> \<rparr>
                | None \<Rightarrow> s)
      in case pct of
           None \<Rightarrow> (Inr (), s1)
         | Some p \<Rightarrow>
             if dlt p (Fin 0) \<or> dlt (Fin 100) p
             then (Inl ''Percentage must be between 0 and 100'', s1)
             else (Inr (), s1\<lparr> lock := (lock s1)\<lparr> percentage := p \<rparr> \<rparr>))"

subsection \<open>WalletStateStore\<close>

text \<open>The portfolio and the profit lock as a JSON file gives them back. A stored
  percentage is a number within the range or a value that is not numeric, and comes back
  as it was.\<close>

definition jsonPortfolio :: "portfolio \<Rightarrow> portfolio" where
  "jsonPortfolio p =
     p\<lparr> pvalue := jsonNumber (pvalue p), totalPnL := jsonNumber (totalPnL p),
        dailyReturn := jsonNumber (dailyReturn p), balance := jsonNumber (balance p) \<rparr>"

definition jsonLock :: "profitLock \<Rightarrow> profitLock" where
  "jsonLock l =
     l\<lparr> lockedAmount := jsonNumber (lockedAmount l),
        lockedBalance := jsonNumber (lockedBalance l),
        totalLocked := jsonNumber (totalLocked l),
        history := map (\<lambda>e. e\<lparr> lockProfit := jsonNumber (lockProfit e),
                                 lockAmount := jsonNumber (lockAmount e) \<rparr>) (history l) \<rparr>"

text \<open>
  \<open>saveWalletState(walletAddress)\<close> and \<open>loadWalletState(walletAddress)\<close>. \<open>h\<close>
  is the file name derived from an address (the first sixteen hex digits of its
  SHA-256). \<open>fsok = False\<close> is a file-system or JSON error, which both functions catch
  and answer with \<open>false\<close>. The Boolean is the return value.
\<close>

definition saveWalletState ::
  "(string \<Rightarrow> string) \<Rightarrow> bool \<Rightarrow> int \<Rightarrow> string option \<Rightarrow> state \<Rightarrow> bool \<times> state" where
  "saveWalletState h fsok now wa s =
     (case wa of
        None \<Rightarrow> (False, s)
      | Some a \<Rightarrow>
          if a = [] \<or> \<not> fsok then (False, s)
          else (True,
                s\<lparr> files := (files s)(h a \<mapsto>
                     \<lparr> wsPortfolio = jsonPortfolio (portfolio s), wsTrades = trades s,
                       wsProfitLock = jsonLock (lock s), wsMlStats = stats s,
                       savedAt = now \<rparr>) \<rparr>))"

definition loadWalletState ::
  "(string \<Rightarrow> string) \<Rightarrow> bool \<Rightarrow> string option \<Rightarrow> state \<Rightarrow> bool \<times> state" where
  "loadWalletState h fsok wa s =
     (case wa of
        None \<Rightarrow> (False, s)
      | Some a \<Rightarrow>
          if a = [] then (False, s)
          else
            case files s (h a) of
              None \<Rightarrow> (False, s)
            | Some w \<Rightarrow>
                if \<not> fsok then (False, s)
                else (True,
                      s\<lparr> portfolio := wsPortfolio w, trades := wsTrades w,
                         lock := wsProfitLock w, stats := wsMlStats w \<rparr>))"

subsection \<open>SessionController\<close>

text \<open>\<open>startMarketDataTrading()\<close>: the resets it performs before installing the
  timer.\<close>

definition startMarketDataTrading :: "state \<Rightarrow> state" where
  "startMarketDataTrading s =
     s\<lparr> portfolio := \<lparr> pvalue = Fin 50, totalPnL = Fin 0, dailyReturn = Fin 0,
                        mlAccuracy = statsAccuracy (stats s), balance = Fin 50 \<rparr>,
        trades := [],
        lock := (lock s)\<lparr> lockedBalance := Fin 0, totalLocked := Fin 0 \<rparr> \<rparr>"

text \<open>The mode a \<open>start_trading\<close> request asks for: \<open>data.mode || 'demo'\<close>.\<close>

definition requestedMode :: "string option \<Rightarrow> string" where
  "requestedMode m = (case m of None \<Rightarrow> ''demo'' | Some a \<Rightarrow> if a = [] then ''demo'' else a)"

text \<open>Whether the \<open>start_trading\<close> handler gets past its two guards.\<close>

definition startAccepted :: "nat \<Rightarrow> string option \<Rightarrow> state \<Rightarrow> bool" where
  "startAccepted sock m s =
     (\<not> (requestedMode m = ''live'' \<and> noWallet (sockets s sock)) \<and> \<not> isRunning s)"

text \<open>The two branches of the \<open>start_trading\<close> handler after the mode is set:
  the demo reset, and the live branch (every mode other than \<open>'demo'\<close> takes it).\<close>

definition demoReset :: "state \<Rightarrow> state" where
  "demoReset s =
     s\<lparr> trades := [],
        portfolio := \<lparr> pvalue = Fin 50, totalPnL = Fin 0, dailyReturn = Fin 0,
                        mlAccuracy = statsAccuracy (stats s), balance = Fin 50 \<rparr>,
        lock := (lock s)\<lparr> lockedBalance := Fin 0, totalLocked := Fin 0, history := [] \<rparr> \<rparr>"

definition liveRestore :: "(string \<Rightarrow> string) \<Rightarrow> bool \<Rightarrow> string option \<Rightarrow> state \<Rightarrow> state" where
  "liveRestore h fsok wa s =
     (case loadWalletState h fsok wa s of
        (True, s') \<Rightarrow> s'
      | (False, s') \<Rightarrow>
          if pvalue (portfolio s') = NaN \<or> pvalue (portfolio s') = Fin 0
          then s'\<lparr> portfolio := (portfolio s')\<lparr> pvalue := Fin 0 \<rparr> \<rparr>
          else s')"

text \<open>The \<open>start_trading\<close> handler of socket \<open>sock\<close>: the message of the \<open>error\<close>
  event, or the mode of the \<open>trading_started\<close> event.\<close>

definition startTrading ::
  "(string \<Rightarrow> string) \<Rightarrow> bool \<Rightarrow> int \<Rightarrow> nat \<Rightarrow> string option \<Rightarrow> state \<Rightarrow> (string + string) \<times> state" where
  "startTrading h fsok now sock m s =
     (let md = requestedMode m;
          wa = sockets s sock
      in if md = ''live'' \<and> noWallet wa
         then (Inl ''Wallet connection required for live trading.'', s)
         else if isRunning s then (Inr (mode s), s)
         else
           let s1 = s\<lparr> mode := md, startTime := Some now, isRunning := True,
                       walletAddress := (if md = ''live'' then addrOf wa else None) \<rparr>;
               s2 = (if md = ''demo'' then demoReset s1 else liveRestore h fsok (addrOf wa) s1)
           in (Inr md, startMarketDataTrading s2))"

text \<open>The \<open>stop_trading\<close> handler. Clearing the timer does not cancel a tick that is
  already suspended, so \<open>inFlight\<close> stays.\<close>

definition stopTrading :: "(string \<Rightarrow> string) \<Rightarrow> bool \<Rightarrow> int \<Rightarrow> state \<Rightarrow> state" where
  "stopTrading h fsok now s =
     (if \<not> isRunning s then s
      else
        let s1 = (if mode s = ''live'' \<and> \<not> falsy (walletAddress s)
                  then snd (saveWalletState h fsok now (walletAddress s) s) else s);
            s2 = s1\<lparr> isRunning := False \<rparr>
        in if mode s2 = ''demo'' then s2\<lparr> walletAddress := None \<rparr> else s2)"

text \<open>The \<open>connect_wallet\<close> handler with \<open>data.address\<close>.\<close>

definition connectWallet ::
  "(string \<Rightarrow> string) \<Rightarrow> bool \<Rightarrow> nat \<Rightarrow> string option \<Rightarrow> state \<Rightarrow> state" where
  "connectWallet h fsok sock addr s =
     (case addr of
        None \<Rightarrow> s
      | Some a \<Rightarrow>
          if a = [] then s
          else
            let s1 = s\<lparr> sockets := (sockets s)(sock := Addr a) \<rparr> in
            if liveTradingEnabled \<and> falsy (walletAddress s1)
            then snd (loadWalletState h fsok addr (s1\<lparr> walletAddress := addr \<rparr>))
            else s1)"

text \<open>The \<open>disconnect_wallet\<close> handler: the comparison is strict, so a socket that
  never connected a wallet (\<open>undefined\<close>) does not match a live address of \<open>null\<close>,
  while a socket that has disconnected before (\<open>null\<close>) does.\<close>

definition disconnectWallet ::
  "(string \<Rightarrow> string) \<Rightarrow> bool \<Rightarrow> int \<Rightarrow> nat \<Rightarrow> state \<Rightarrow> state" where
  "disconnectWallet h fsok now sock s =
     (let s1 = (if sameAddr (sockets s sock) (walletAddress s)
                then
                  let s' = (if mode s = ''live''
                            then snd (saveWalletState h fsok now (addrOf (sockets s sock)) s)
                            else s)
                  in s'\<lparr> walletAddress := None \<rparr>
                else s)
      in s1\<lparr> sockets := (sockets s1)(sock := NullAddr) \<rparr>)"

text \<open>The socket's \<open>disconnect\<close> event; the socket's own address is not written.\<close>

definition socketDisconnect ::
  "(string \<Rightarrow> string) \<Rightarrow> bool \<Rightarrow> int \<Rightarrow> nat \<Rightarrow> state \<Rightarrow> state" where
  "socketDisconnect h fsok now sock s =
     (if sameAddr (sockets s sock) (walletAddress s) \<and> mode s = ''live''
      then snd (saveWalletState h fsok now (addrOf (sockets s sock)) s) else s)"

text \<open>\<open>POST /api/secure-trading/setup\<close> on success, with the public key derived.\<close>

definition secureSetup :: "string \<Rightarrow> state \<Rightarrow> state" where
  "secureSetup pk s = s\<lparr> walletAddress := Some pk \<rparr>"

text \<open>\<open>updateMLStats(prediction, success)\<close> on a prediction object.\<close>

definition updateMLStats :: "trainRandom \<Rightarrow> predictionDetails \<Rightarrow> bool \<Rightarrow> state \<Rightarrow> state" where
  "updateMLStats r pd succ s =
     (let numericPrediction =
            (case prediction pd of
               Some n \<Rightarrow> n
             | None \<Rightarrow> (case probability pd of
                          Some q \<Rightarrow> if q > 0.5 then 1 else 0
                        | None \<Rightarrow> 0));
          numericSuccess = (if succ then 1 else 0);
          n = predictions (stats s) + 1;
          c = (if numericPrediction = numericSuccess
               then statsCorrect (stats s) + 1 else statsCorrect (stats s));
          st = \<lparr> predictions = n, statsCorrect = c,
                 statsAccuracy = (if n > 0 then real c / real n * 100 else 85) \<rparr>;
          b = (if mlEnabled s
               then snd (learnFromTrade r
                      \<lparr> mid = ''trade-'', msuccess = succ, mdetails = Some pd \<rparr> (bridge s))
               else bridge s)
      in s\<lparr> stats := st, bridge := b,
            portfolio := (portfolio s)\<lparr> mlAccuracy := statsAccuracy st \<rparr> \<rparr>)"

text \<open>Assignment to the first trade with the given id, the object
  \<open>state.trades.find\<close> returns.\<close>

fun replaceFirst :: "string \<Rightarrow> trade \<Rightarrow> trade list \<Rightarrow> trade list" where
  "replaceFirst i t' [] = []"
| "replaceFirst i t' (t # ts) = (if tradeId t = i then t' # ts else t # replaceFirst i t' ts)"

text \<open>The \<open>trade_executed\<close> handler with \<open>result.tradeId\<close> and \<open>result.success\<close>.\<close>

definition tradeExecuted :: "trainRandom \<Rightarrow> int \<Rightarrow> string \<Rightarrow> bool \<Rightarrow> state \<Rightarrow> state" where
  "tradeExecuted r now i succ s =
     (case find (\<lambda>t. tradeId t = i) (trades s) of
        None \<Rightarrow> s
      | Some t \<Rightarrow>
          if status t \<noteq> ''prepared'' then s
          else
            let t1 = t\<lparr> status := (if succ then ''executed_success'' else ''executed_failure''),
                        success := succ \<rparr>;
                t2 = (if succ then t1 else t1\<lparr> profit := Fin 0 \<rparr>);
                s1 = s\<lparr> trades := replaceFirst i t2 (trades s) \<rparr>;
                s2 = updatePortfolio now t2 s1;
                pd = (case details t2 of
                        Some d \<Rightarrow> d
                      | None \<Rightarrow> \<lparr> prediction = Some (if mlScore t2 > 50 then 1 else 0),
                                   probability = None, contributingFactors = [] \<rparr>)
            in updateMLStats r pd succ s2)"

text \<open>
  The timer callback and \<open>generateAndProcessTrade\<close>. The guards (\<open>isRunning\<close>, demo
  mode) are read when the call begins; the call then awaits price lookups, and pushes
  its trade and updates the portfolio when it resumes, without reading the guards again.
  \<open>tickBegin\<close> is the first part and \<open>tickEnd\<close> the second; the synthesized trade
  (id, profit, success, score) is \<open>None\<close> when the call ends in its \<open>catch\<close>.
\<close>

definition tickBegin :: "state \<Rightarrow> state" where
  "tickBegin s =
     (if isRunning s \<and> mode s = ''demo'' then s\<lparr> inFlight := inFlight s + 1 \<rparr> else s)"

definition tickEnd :: "int \<Rightarrow> (string \<times> double \<times> bool \<times> real) option \<Rightarrow> state \<Rightarrow> state" where
  "tickEnd now outcome s =
     (if inFlight s = 0 then s
      else
        let s1 = s\<lparr> inFlight := inFlight s - 1 \<rparr> in
        case outcome of
          None \<Rightarrow> s1
        | Some (i, p, succ, score) \<Rightarrow>
            let t = \<lparr> tradeId = i, profit = p, status = ''completed'', success = succ,
                      mlScore = score, details = None \<rparr>
            in updatePortfolio now t (s1\<lparr> trades := trades s1 @ [t] \<rparr>))"

text \<open>The \<open>toggle_ml\<close> socket handler writes \<open>state.mlEnabled\<close> only; the REST
  endpoint \<open>/api/ml/toggle\<close> also tells the bridge.\<close>

definition toggleMLSocket :: "bool option \<Rightarrow> state \<Rightarrow> state" where
  "toggleMLSocket e s =
     s\<lparr> mlEnabled := (case e of Some v \<Rightarrow> v | None \<Rightarrow> \<not> mlEnabled s) \<rparr>"

definition toggleMLRest :: "bool \<Rightarrow> state \<Rightarrow> state" where
  "toggleMLRest e s = s\<lparr> mlEnabled := e, bridge := setEnabled e (bridge s) \<rparr>"

subsection \<open>Runs of the server\<close>

text \<open>The requests and timer events that write \<open>state\<close>. Each handler runs to its
  end (or to its first \<open>await\<close>) before the next event is taken.\<close>

datatype event =
    ConnectWallet nat "string option" bool
  | DisconnectWallet nat bool
  | StartTrading nat "string option" bool
  | StopTrading bool
  | SocketDisconnect nat bool
  | TickBegin
  | TickEnd "(string \<times> double \<times> bool \<times> real) option"
  | TradeExecuted trainRandom string bool
  | Withdraw "double option"
  | Configure "double option" "bool option"
  | ToggleMLSocket "bool option"
  | ToggleMLRest bool
  | SecureSetup string

text \<open>One event at clock \<open>now\<close>.\<close>

fun step :: "(string \<Rightarrow> string) \<Rightarrow> int \<times> event \<Rightarrow> state \<Rightarrow> state" where
  "step h (now, ConnectWallet sock addr fsok) s = connectWallet h fsok sock addr s"
| "step h (now, DisconnectWallet sock fsok) s = disconnectWallet h fsok now sock s"
| "step h (now, StartTrading sock m fsok) s = snd (startTrading h fsok now sock m s)"
| "step h (now, StopTrading fsok) s = stopTrading h fsok now s"
| "step h (now, SocketDisconnect sock fsok) s = socketDisconnect h fsok now sock s"
| "step h (now, TickBegin) s = tickBegin s"
| "step h (now, TickEnd outcome) s = tickEnd now outcome s"
| "step h (now, TradeExecuted r i succ) s = tradeExecuted r now i succ s"
| "step h (now, Withdraw amount) s = snd (withdraw amount s)"
| "step h (now, Configure pct en) s = snd (configure pct en s)"
| "step h (now, ToggleMLSocket e) s = toggleMLSocket e s"
| "step h (now, ToggleMLRest e) s = toggleMLRest e s"
| "step h (now, SecureSetup pk) s = secureSetup pk s"

text \<open>A run: the events of the list, first to last.\<close>

fun run :: "(string \<Rightarrow> string) \<Rightarrow> (int \<times> event) list \<Rightarrow> state \<Rightarrow> state" where
  "run h [] s = s"
| "run h (e # es) s = run h es (step h e s)"

section \<open>Properties\<close>

subsection \<open>Predicates on states and runs\<close>

text \<open>A number that is a binary64 value: converting it changes nothing.\<close>

definition isDouble :: "double \<Rightarrow> bool" where
  "isDouble d = (toDouble d = d)"

text \<open>A number that is not an infinity.\<close>

definition bounded :: "double \<Rightarrow> bool" where
  "bounded d = (d \<noteq> PInf \<and> d \<noteq> NInf)"

text \<open>The profit-lock invariant: a percentage within \<open>[0, 100]\<close>, and
  \<open>0 \<le> lockedBalance \<le> totalLocked\<close> on numbers.\<close>

definition pctOk :: "profitLock \<Rightarrow> bool" where
  "pctOk l = (dle (Fin 0) (percentage l) \<and> dle (percentage l) (Fin 100))"

definition lockOk :: "profitLock \<Rightarrow> bool" where
  "lockOk l =
     (dle (Fin 0) (lockedBalance l) \<and> dle (lockedBalance l) (totalLocked l) \<and>
      isDouble (lockedBalance l) \<and> isDouble (totalLocked l) \<and> pctOk l)"

text \<open>The invariant of the server state: the lock invariant, trades whose profit is not
  infinite, and wallet files with a percentage within the range.\<close>

definition ledgerInv :: "state \<Rightarrow> bool" where
  "ledgerInv s =
     (lockOk (lock s) \<and> (\<forall>t \<in> set (trades s). bounded (profit t)) \<and>
      (\<forall>k w. files s k = Some w \<longrightarrow> pctOk (wsProfitLock w)))"

text \<open>Events whose numbers are ordinary: a synthesized profit and a withdrawal amount that
  are not infinite, and a configured percentage that is a number.\<close>

definition numericEvent :: "event \<Rightarrow> bool" where
  "numericEvent e =
     (case e of
        TickEnd outcome \<Rightarrow>
          (case outcome of None \<Rightarrow> True | Some (i, p, succ, score) \<Rightarrow> bounded p)
      | Withdraw amount \<Rightarrow> (case amount of None \<Rightarrow> True | Some a \<Rightarrow> bounded a)
      | Configure pct en \<Rightarrow> (case pct of None \<Rightarrow> True | Some p \<Rightarrow> p \<noteq> NaN)
      | _ \<Rightarrow> True)"

text \<open>The events that reset the ledger: a \<open>start_trading\<close> request that is accepted.\<close>

definition resetsLedger :: "event \<Rightarrow> state \<Rightarrow> bool" where
  "resetsLedger e s = (case e of StartTrading sock m fsok \<Rightarrow> startAccepted sock m s | _ \<Rightarrow> False)"

text \<open>A running session that is not a demo session (the branch the \<open>start_trading\<close>
  handler marks as live mode) has an identity.\<close>

definition liveIdentity :: "state \<Rightarrow> bool" where
  "liveIdentity s = (mode s \<noteq> ''demo'' \<and> isRunning s \<longrightarrow> walletAddress s \<noteq> None)"

text \<open>The two kinds of event that take the identity from a running live session: a
  \<open>disconnect_wallet\<close> request from a socket whose address is the live one while such
  a session runs, and a \<open>start_trading\<close> request, while no session runs, whose mode
  is neither \<open>'demo'\<close> nor \<open>'live'\<close>.\<close>

definition dropsIdentity :: "event \<Rightarrow> state \<Rightarrow> bool" where
  "dropsIdentity e s =
     (case e of
        DisconnectWallet sock fsok \<Rightarrow>
          isRunning s \<and> mode s \<noteq> ''demo'' \<and> sameAddr (sockets s sock) (walletAddress s)
      | StartTrading sock m fsok \<Rightarrow>
          \<not> isRunning s \<and> requestedMode m \<noteq> ''demo'' \<and> requestedMode m \<noteq> ''live''
      | _ \<Rightarrow> False)"

fun keepsIdentity :: "(string \<Rightarrow> string) \<Rightarrow> (int \<times> event) list \<Rightarrow> state \<Rightarrow> bool" where
  "keepsIdentity h [] s = True"
| "keepsIdentity h (e # es) s = (\<not> dropsIdentity (snd e) s \<and> keepsIdentity h es (step h e s))"

subsection \<open>The price resolver as the specification words it\<close>

text \<open>The positive price a source returns, if it returns one.\<close>

definition positivePrice :: "jsval option reply \<Rightarrow> real option" where
  "positivePrice rep =
     (case rep of
        Reply st (Some (Num x)) \<Rightarrow> if st = 200 \<and> x > 0 then Some x else None
      | _ \<Rightarrow> None)"




subsection \<open>Sample inputs\<close>

definition emptyDisk :: "string \<Rightarrow> walletState option" where
  "emptyDisk = (\<lambda>_. None)"

definition sampleHash :: "string \<Rightarrow> string" where
  "sampleHash a = a"

definition noRandom :: trainRandom where
  "noRandom = \<lparr> rndLearningRate = 0, rndRegularization = 0, rndMomentum = 0, rndDropout = 0,
     rndOptimizer = 0, rndBase = 0, rndBalancing = 0, rndHyper = 0, rndFeature = 0 \<rparr>"

definition wonTrade :: mlTrade where
  "wonTrade = \<lparr> mid = ''trade-1'', msuccess = True,
     mdetails = Some \<lparr> prediction = Some 1, probability = Some 0.7, contributingFactors = [] \<rparr> \<rparr>"

text \<open>Helius answers with a price of zero while Jupiter has a price of five.\<close>

definition zeroThenFive :: upstream where
  "zeroThenFive = \<lparr> helius = (\<lambda>_. Reply 200 (Some (Num 0))),
     jupiterPrice = (\<lambda>_. Reply 200 (Some (Num 5))),
     jupiterPriceDirect = (\<lambda>_. Reply 200 (Some (Num 5))),
     jupiterQuote = (\<lambda>_ _ _ _. Threw) \<rparr>"




text \<open>A token priced at 2 for which one USDC buys 500000 units that sell for 950000
  micro-USDC.\<close>

definition roundTrip95 :: upstream where
  "roundTrip95 = \<lparr> helius = (\<lambda>_. Reply 200 (Some (Num 2))),
     jupiterPrice = (\<lambda>_. Threw), jupiterPriceDirect = (\<lambda>_. Threw),
     jupiterQuote = (\<lambda>i out a sl. Reply 200 (Some \<lparr> outAmount =
        Some (if i = USDC_ADDRESS then 500000 else 950000) \<rparr>)) \<rparr>"

text \<open>A demo session with one profitable trade.\<close>

definition demoTrace :: "(int \<times> event) list" where
  "demoTrace =
     [(0, StartTrading 0 (Some ''demo'') True),
      (1, TickBegin),
      (2, TickEnd (Some (''trade-1'', Fin 5, True, 80)))]"

text \<open>The demo session is stopped and a second demo session is started.\<close>

definition restartTrace :: "(int \<times> event) list" where
  "restartTrace = [(3, StopTrading True), (4, StartTrading 0 (Some ''demo'') True)]"

text \<open>A demo tick is suspended at its price lookups when the session is stopped and a
  live session for \<open>abc\<close> is started; the tick resumes in the live session, which is
  then stopped.\<close>

definition raceTrace :: "(int \<times> event) list" where
  "raceTrace =
     [(0, StartTrading 0 (Some ''demo'') True),
      (1, TickBegin),
      (2, StopTrading True),
      (3, ConnectWallet 0 (Some ''abc'') True),
      (4, StartTrading 0 (Some ''live'') True),
      (5, TickEnd (Some (''trade-1'', Fin 5, True, 80))),
      (6, StopTrading True)]"

text \<open>A live session for \<open>abc\<close> whose socket then disconnects the wallet.\<close>

definition disconnectTrace :: "(int \<times> event) list" where
  "disconnectTrace =
     [(0, ConnectWallet 0 (Some ''abc'') True),
      (1, StartTrading 0 (Some ''live'') True),
      (2, DisconnectWallet 0 True)]"

text \<open>A start request whose mode is spelled \<open>Live\<close>, from a socket without a
  wallet.\<close>

definition capitalTrace :: "(int \<times> event) list" where
  "capitalTrace = [(0, StartTrading 0 (Some ''Live'') True)]"

text \<open>The initial state with three units locked.\<close>

definition lockedState :: state where
  "lockedState =
     (initialState None emptyDisk)\<lparr> lock :=
        (lock (initialState None emptyDisk))\<lparr> lockedBalance := Fin 3, totalLocked := Fin 3 \<rparr> \<rparr>"

text \<open>The initial state with the number \<open>0.02\<close> locked.\<close>

definition centsState :: state where
  "centsState =
     (initialState None emptyDisk)\<lparr> lock :=
        (lock (initialState None emptyDisk))\<lparr> lockedBalance := round64 (2 / 100),
                                              totalLocked := round64 (2 / 100) \<rparr> \<rparr>"

definition fiveProfit :: trade where
  "fiveProfit = \<lparr> tradeId = ''trade-1'', profit = Fin 5, status = ''completed'',
     success = True, mlScore = 80, details = None \<rparr>"

section \<open>Arithmetic of JavaScript numbers\<close>

lemma rne_cases: "rne y = \<lfloor>y\<rfloor> \<or> rne y = \<lfloor>y\<rfloor> + 1"
  by (simp add: rne_def Let_def)

lemma rne_of_int [simp]: "rne (of_int n) = n"
  by (simp add: rne_def)

lemma rne_floor_le: "\<lfloor>y\<rfloor> \<le> rne y"
  using rne_cases[of y] by linarith

lemma rne_le_floor1: "rne y \<le> \<lfloor>y\<rfloor> + 1"
  using rne_cases[of y] by linarith

lemma rne_floor_half:
  "y - of_int \<lfloor>y\<rfloor> < 1/2 \<Longrightarrow> rne y = \<lfloor>y\<rfloor>"
  "1/2 < y - of_int \<lfloor>y\<rfloor> \<Longrightarrow> rne y = \<lfloor>y\<rfloor> + 1"
  by (simp_all add: rne_def Let_def)

lemma rne_error: "\<bar>of_int (rne y) - y\<bar> \<le> 1/2"
proof -
  have a: "of_int \<lfloor>y\<rfloor> \<le> y" "y < of_int \<lfloor>y\<rfloor> + 1" by linarith+
  consider "y - of_int \<lfloor>y\<rfloor> < 1/2" | "1/2 < y - of_int \<lfloor>y\<rfloor>" | "y - of_int \<lfloor>y\<rfloor> = 1/2"
    by linarith
  then show ?thesis
  proof cases
    case 1
    then show ?thesis using a by (simp add: rne_floor_half(1))
  next
    case 2
    then show ?thesis using a by (simp add: rne_floor_half(2))
  next
    case 3
    from rne_cases[of y] show ?thesis
    proof
      assume "rne y = \<lfloor>y\<rfloor>" then show ?thesis using 3 by simp
    next
      assume "rne y = \<lfloor>y\<rfloor> + 1" then show ?thesis using 3 by simp
    qed
  qed
qed

lemma rne_eval_down: "of_int n \<le> y \<Longrightarrow> y < of_int n + 1/2 \<Longrightarrow> rne y = n"
proof -
  assume a: "of_int n \<le> y" "y < of_int n + 1/2"
  then have "\<lfloor>y\<rfloor> = n" by (simp add: floor_eq_iff)
  then show ?thesis using a by (simp add: rne_floor_half(1))
qed

lemma rne_eval_up: "of_int n + 1/2 < y \<Longrightarrow> y < of_int n + 1 \<Longrightarrow> rne y = n + 1"
proof -
  assume a: "of_int n + 1/2 < y" "y < of_int n + 1"
  then have "\<lfloor>y\<rfloor> = n" by (simp add: floor_eq_iff)
  then show ?thesis using a by (simp add: rne_floor_half(2))
qed

lemma rne_ge_int: "of_int n \<le> y \<Longrightarrow> n \<le> rne y"
proof -
  assume "of_int n \<le> y"
  then have "n \<le> \<lfloor>y\<rfloor>" by (simp add: le_floor_iff)
  with rne_floor_le[of y] show ?thesis by linarith
qed

lemma rne_le_int: "y \<le> of_int n \<Longrightarrow> rne y \<le> n"
proof (cases "y = of_int n")
  case True
  then show ?thesis by simp
next
  case False
  assume "y \<le> of_int n"
  with False have "y < of_int n" by simp
  then have "\<lfloor>y\<rfloor> < n" by (simp add: floor_less_iff)
  with rne_le_floor1[of y] show ?thesis by linarith
qed

lemma rne_mono: "y \<le> z \<Longrightarrow> rne y \<le> rne z"
proof -
  assume yz: "y \<le> z"
  then have fl: "\<lfloor>y\<rfloor> \<le> \<lfloor>z\<rfloor>" by (rule floor_mono)
  show ?thesis
  proof (cases "\<lfloor>y\<rfloor> = \<lfloor>z\<rfloor>")
    case True
    then show ?thesis using yz unfolding rne_def Let_def by auto
  next
    case False
    with fl have "\<lfloor>y\<rfloor> + 1 \<le> \<lfloor>z\<rfloor>" by linarith
    with rne_le_floor1[of y] rne_floor_le[of z] show ?thesis by linarith
  qed
qed

lemma rne_minus: "rne (- y) = - rne y"
proof (cases "y = of_int \<lfloor>y\<rfloor>")
  case True
  then obtain n where "y = of_int n" by blast
  then have "- y = of_int (- n)" by simp
  then show ?thesis using \<open>y = of_int n\<close> by (metis rne_of_int)
next
  case False
  have fl: "of_int \<lfloor>y\<rfloor> < y" "y < of_int \<lfloor>y\<rfloor> + 1"
    using False by linarith+
  have fm: "\<lfloor>- y\<rfloor> = - \<lfloor>y\<rfloor> - 1"
  proof (rule floor_unique)
    show "of_int (- \<lfloor>y\<rfloor> - 1) \<le> - y" using fl by (simp; linarith)
    show "- y < of_int (- \<lfloor>y\<rfloor> - 1) + 1" using fl by simp
  qed
  consider "y - of_int \<lfloor>y\<rfloor> < 1/2" | "1/2 < y - of_int \<lfloor>y\<rfloor>" | "y - of_int \<lfloor>y\<rfloor> = 1/2"
    by linarith
  then show ?thesis
  proof cases
    case 1
    then have "1/2 < - y - of_int \<lfloor>- y\<rfloor>" by (simp add: fm)
    then show ?thesis using 1 by (simp add: rne_floor_half fm)
  next
    case 2
    then have "- y - of_int \<lfloor>- y\<rfloor> < 1/2" by (simp add: fm)
    then show ?thesis using 2 by (simp add: rne_floor_half fm)
  next
    case 3
    then have "- y - of_int \<lfloor>- y\<rfloor> = 1/2" by (simp add: fm)
    then show ?thesis using 3 by (simp add: rne_def Let_def fm)
  qed
qed

lemma pow2_pos [simp]: "0 < pow2 k"
  by (simp add: zero_less_power_int)

lemma pow2_int: "0 \<le> j \<Longrightarrow> pow2 j = of_int (2 ^ nat j)"
  by (simp add: power_int_nonneg_exp)

lemma pow2_add: "pow2 (a + b) = pow2 a * pow2 b"
  by (simp add: power_int_add)

lemma pow2_div: "pow2 a / pow2 b = pow2 (a - b)"
  by (simp add: power_int_diff)

lemma pow2_mono: "a \<le> b \<Longrightarrow> pow2 a \<le> pow2 b"
  by (simp add: power_int_increasing)

lemma pow2_less_exp: "pow2 a < pow2 b \<Longrightarrow> a < b"
  by (metis pow2_mono linorder_not_less)

lemma powi_powr: "pow2 k = 2 powr (of_int k)"
  by (simp add: powr_real_of_int')

lemma floor_log2: "x \<noteq> 0 \<Longrightarrow> pow2 k \<le> \<bar>x\<bar> \<Longrightarrow> \<bar>x\<bar> < pow2 (k + 1) \<Longrightarrow> \<lfloor>log 2 \<bar>x\<bar>\<rfloor> = k"
  using floor_log_eq_powr_iff[of "\<bar>x\<bar>" 2 k] by (simp add: powi_powr)

lemma log2_bounds: "x \<noteq> 0 \<Longrightarrow> pow2 \<lfloor>log 2 \<bar>x\<bar>\<rfloor> \<le> \<bar>x\<bar> \<and> \<bar>x\<bar> < pow2 (\<lfloor>log 2 \<bar>x\<bar>\<rfloor> + 1)"
  using floor_log_eq_powr_iff[of "\<bar>x\<bar>" 2 "\<lfloor>log 2 \<bar>x\<bar>\<rfloor>"] by (simp add: powi_powr)

lemma ulpExp_ge: "- 1074 \<le> ulpExp x" "\<lfloor>log 2 \<bar>x\<bar>\<rfloor> - 52 \<le> ulpExp x"
  by (simp_all add: ulpExp_def)

lemma ulpExp_cases: "ulpExp x = \<lfloor>log 2 \<bar>x\<bar>\<rfloor> - 52 \<or> ulpExp x = - 1074"
  by (simp add: ulpExp_def max_def)

lemma ulpExp_minus [simp]: "ulpExp (- x) = ulpExp x"
  by (simp add: ulpExp_def)

lemma nearest_minus: "nearest (- x) = - nearest x"
  by (simp add: nearest_def rne_minus)

lemma nearest_nonneg: "0 \<le> x \<Longrightarrow> 0 \<le> nearest x"
proof -
  assume "0 \<le> x"
  then have "0 \<le> x / pow2 (ulpExp x)" by simp
  then have "0 \<le> rne (x / pow2 (ulpExp x))" using rne_ge_int[of 0] by simp
  then show ?thesis by (simp add: nearest_def)
qed

lemma nearest_nonpos: "x \<le> 0 \<Longrightarrow> nearest x \<le> 0"
  using nearest_nonneg[of "- x"] by (simp add: nearest_minus)

text \<open>The scaled quotient that \<open>nearest\<close> rounds is below \<open>2 ^ 53\<close> in absolute value.\<close>
lemma scaled_less: "x \<noteq> 0 \<Longrightarrow> \<bar>x\<bar> / pow2 (ulpExp x) < 2 ^ 53"
proof -
  assume x: "x \<noteq> 0"
  have "\<bar>x\<bar> < pow2 (\<lfloor>log 2 \<bar>x\<bar>\<rfloor> + 1)" using log2_bounds[OF x] by simp
  also have "\<dots> \<le> pow2 (ulpExp x + 53)"
    using ulpExp_ge(2)[of x] by (intro pow2_mono) linarith
  also have "\<dots> = pow2 (ulpExp x) * 2 ^ 53" by (simp add: pow2_add)
  finally show ?thesis by (simp add: field_simps)
qed

lemma nearest_fixed:
  assumes "\<bar>m\<bar> < 2 ^ 53" "- 1074 \<le> k"
  shows "nearest (of_int m * pow2 k) = of_int m * pow2 k"
proof (cases "m = 0")
  case True
  then show ?thesis by (simp add: nearest_def)
next
  case False
  define x where "x = of_int m * pow2 k"
  have x0: "x \<noteq> 0" using False by (simp add: x_def)
  have "\<bar>x\<bar> = of_int \<bar>m\<bar> * pow2 k" by (simp add: x_def abs_mult)
  also have "\<dots> < 2 ^ 53 * pow2 k"
    using assms(1) by (simp add: of_int_less_iff [where 'a = real, symmetric] del: of_int_less_iff)
  also have "\<dots> = pow2 (k + 53)" by (simp add: pow2_add)
  finally have lt: "\<bar>x\<bar> < pow2 (k + 53)" .
  have "pow2 \<lfloor>log 2 \<bar>x\<bar>\<rfloor> \<le> \<bar>x\<bar>" using log2_bounds[OF x0] by simp
  with lt have "pow2 \<lfloor>log 2 \<bar>x\<bar>\<rfloor> < pow2 (k + 53)" by linarith
  then have "\<lfloor>log 2 \<bar>x\<bar>\<rfloor> < k + 53" by (rule pow2_less_exp)
  then have ek: "ulpExp x \<le> k" using assms(2) by (simp add: ulpExp_def)
  have "x / pow2 (ulpExp x) = of_int m * pow2 (k - ulpExp x)"
    by (simp add: x_def pow2_div [symmetric])
  also have "\<dots> = of_int (m * 2 ^ nat (k - ulpExp x))"
    using ek by (simp add: pow2_int)
  finally have "rne (x / pow2 (ulpExp x)) = m * 2 ^ nat (k - ulpExp x)"
    by (simp only: rne_of_int)
  then have "nearest x = of_int (m * 2 ^ nat (k - ulpExp x)) * pow2 (ulpExp x)"
    using x0 by (simp add: nearest_def)
  also have "\<dots> = of_int m * (pow2 (k - ulpExp x) * pow2 (ulpExp x))"
    using ek by (simp add: pow2_int)
  also have "\<dots> = x" by (simp add: x_def pow2_add [symmetric])
  finally show ?thesis by (simp add: x_def)
qed

lemma nearest_form:
  "\<exists>n e. nearest x = of_int n * pow2 e \<and> \<bar>n\<bar> \<le> 2 ^ 53 \<and> - 1074 \<le> e"
proof (cases "x = 0")
  case True
  then show ?thesis by (intro exI[of _ 0] exI[of _ 0]) (simp add: nearest_def)
next
  case False
  let ?e = "ulpExp x"
  let ?n = "rne (x / pow2 ?e)"
  have eq: "\<bar>x / pow2 ?e\<bar> = \<bar>x\<bar> / pow2 ?e" by (simp add: abs_divide)
  have b': "x / pow2 ?e < 2 ^ 53" "- (2 ^ 53) < x / pow2 ?e"
    using scaled_less[OF False] eq by linarith+
  have "?n \<le> 2 ^ 53" using rne_le_int[of "x / pow2 ?e" "2 ^ 53"] b'(1) by simp
  moreover have "- (2 ^ 53) \<le> ?n" using rne_ge_int[of "- (2 ^ 53)" "x / pow2 ?e"] b'(2) by simp
  ultimately have "?n \<le> 2 ^ 53" "- (2 ^ 53) \<le> ?n" by simp_all
  then have "\<bar>?n\<bar> \<le> 2 ^ 53" by linarith
  then show ?thesis using False ulpExp_ge(1)[of x]
    by (intro exI[of _ ?n] exI[of _ ?e]) (simp add: nearest_def)
qed

lemma nearest_idem: "nearest (nearest x) = nearest x"
proof -
  obtain n e where ne: "nearest x = of_int n * pow2 e" "\<bar>n\<bar> \<le> 2 ^ 53" "- 1074 \<le> e"
    using nearest_form[of x] by blast
  show ?thesis
  proof (cases "\<bar>n\<bar> < 2 ^ 53")
    case True
    then show ?thesis using nearest_fixed[OF True ne(3)] by (simp add: ne(1))
  next
    case False
    with ne(2) have "\<bar>n\<bar> = 2 ^ 53" by linarith
    then have "n = 2 ^ 53 \<or> n = - (2 ^ 53)" by linarith
    then have "nearest x = of_int 1 * pow2 (e + 53) \<or> nearest x = of_int (- 1) * pow2 (e + 53)"
      by (auto simp: ne(1) pow2_add)
    moreover have "nearest (of_int 1 * pow2 (e + 53)) = of_int 1 * pow2 (e + 53)"
      using ne(3) by (intro nearest_fixed) simp_all
    moreover have "nearest (of_int (- 1) * pow2 (e + 53)) = of_int (- 1) * pow2 (e + 53)"
      using ne(3) by (intro nearest_fixed) simp_all
    ultimately show ?thesis by metis
  qed
qed

lemma nearest_error: "\<bar>nearest x - x\<bar> \<le> \<bar>x\<bar> / 2 ^ 53 + 1 / 2 ^ 1075"
proof (cases "x = 0")
  case True
  then show ?thesis by (simp add: nearest_def)
next
  case False
  let ?e = "ulpExp x"
  have "nearest x - x = (of_int (rne (x / pow2 ?e)) - x / pow2 ?e) * pow2 ?e"
    using False by (simp add: nearest_def field_simps)
  then have "\<bar>nearest x - x\<bar> = \<bar>of_int (rne (x / pow2 ?e)) - x / pow2 ?e\<bar> * pow2 ?e"
    by (simp add: abs_mult)
  also have "\<dots> \<le> 1/2 * pow2 ?e"
    using rne_error[of "x / pow2 ?e"] by (intro mult_right_mono) simp_all
  finally have a: "\<bar>nearest x - x\<bar> \<le> pow2 ?e / 2" by simp
  from ulpExp_cases[of x] have "pow2 ?e \<le> \<bar>x\<bar> / 2 ^ 52 + 1 / 2 ^ 1074"
  proof
    assume e: "?e = \<lfloor>log 2 \<bar>x\<bar>\<rfloor> - 52"
    have "pow2 ?e = pow2 \<lfloor>log 2 \<bar>x\<bar>\<rfloor> / 2 ^ 52"
      by (simp add: e power_int_diff)
    also have "\<dots> \<le> \<bar>x\<bar> / 2 ^ 52"
      using log2_bounds[OF False] by (intro divide_right_mono) simp_all
    finally have le: "pow2 ?e \<le> \<bar>x\<bar> / 2 ^ 52" .
    have "(0::real) \<le> 1 / 2 ^ 1074" by simp
    with le show ?thesis by linarith
  next
    assume "?e = - 1074"
    then have "pow2 ?e = 1 / 2 ^ 1074" by (simp add: power_int_minus_divide)
    then show ?thesis by (simp add: divide_nonneg_pos)
  qed
  with a show ?thesis by (simp add: field_simps)
qed

lemma ulpExp_mono: "x \<noteq> 0 \<Longrightarrow> \<bar>x\<bar> \<le> \<bar>y\<bar> \<Longrightarrow> ulpExp x \<le> ulpExp y"
proof -
  assume a: "x \<noteq> 0" "\<bar>x\<bar> \<le> \<bar>y\<bar>"
  then have "log 2 \<bar>x\<bar> \<le> log 2 \<bar>y\<bar>" by simp
  then have "\<lfloor>log 2 \<bar>x\<bar>\<rfloor> \<le> \<lfloor>log 2 \<bar>y\<bar>\<rfloor>" by (rule floor_mono)
  then show ?thesis by (simp add: ulpExp_def)
qed

lemma nearest_mono_pos:
  assumes "0 < x" "x \<le> y"
  shows "nearest x \<le> nearest y"
proof -
  have x0: "x \<noteq> 0" and y0: "y \<noteq> 0" and ypos: "0 < y" using assms by simp_all
  let ?ex = "ulpExp x" and ?ey = "ulpExp y"
  have le: "?ex \<le> ?ey" using ulpExp_mono[OF x0, of y] assms by simp
  show ?thesis
  proof (cases "?ex = ?ey")
    case True
    have "x / pow2 ?ey \<le> y / pow2 ?ey" using assms(2) by (simp add: divide_right_mono)
    then have "rne (x / pow2 ?ey) \<le> rne (y / pow2 ?ey)" by (rule rne_mono)
    then have "of_int (rne (x / pow2 ?ey)) * pow2 ?ey \<le> of_int (rne (y / pow2 ?ey)) * pow2 ?ey"
      by (simp add: mult_right_mono)
    then show ?thesis using x0 y0 True by (simp add: nearest_def)
  next
    case False
    with le have lt: "?ex < ?ey" by simp
    let ?ky = "\<lfloor>log 2 \<bar>y\<bar>\<rfloor>"
    have ey: "?ey = ?ky - 52"
      using ulpExp_cases[of y] ulpExp_ge(1)[of x] lt by linarith
    have ky: "pow2 ?ky \<le> y" using log2_bounds[OF y0] ypos by simp
    \<comment> \<open>the larger argument rounds to at least \<open>pow2 ky\<close>\<close>
    have "of_int (2 ^ 52) = pow2 ?ky / pow2 ?ey" by (simp add: ey pow2_div)
    also have "\<dots> \<le> y / pow2 ?ey" using ky by (simp add: divide_right_mono)
    finally have "2 ^ 52 \<le> rne (y / pow2 ?ey)" by (rule rne_ge_int)
    then have A: "(of_int (2 ^ 52) :: real) \<le> of_int (rne (y / pow2 ?ey))"
      by (simp only: of_int_le_iff)
    have B: "pow2 ?ky = of_int (2 ^ 52) * pow2 ?ey"
      by (simp add: ey pow2_add [symmetric] power_int_diff)
    have "pow2 ?ky \<le> of_int (rne (y / pow2 ?ey)) * pow2 ?ey"
      unfolding B by (rule mult_right_mono[OF A]) simp
    then have big: "pow2 ?ky \<le> nearest y" using y0 by (simp add: nearest_def)
    \<comment> \<open>the smaller argument rounds to at most \<open>pow2 ky\<close>\<close>
    have kx: "\<lfloor>log 2 \<bar>x\<bar>\<rfloor> - 52 \<le> ?ex" by (rule ulpExp_ge)
    have "\<lfloor>log 2 \<bar>x\<bar>\<rfloor> + 1 \<le> ?ky" using kx lt ey by linarith
    then have "pow2 (\<lfloor>log 2 \<bar>x\<bar>\<rfloor> + 1) \<le> pow2 ?ky" by (rule pow2_mono)
    moreover have "x < pow2 (\<lfloor>log 2 \<bar>x\<bar>\<rfloor> + 1)" using log2_bounds[OF x0] assms(1) by simp
    ultimately have "x \<le> pow2 ?ky" by linarith
    then have "x / pow2 ?ex \<le> pow2 ?ky / pow2 ?ex" by (simp add: divide_right_mono)
    also have "\<dots> = of_int (2 ^ nat (?ky - ?ex))"
      using lt ey by (simp add: pow2_div pow2_int)
    finally have "rne (x / pow2 ?ex) \<le> 2 ^ nat (?ky - ?ex)" by (rule rne_le_int)
    then have C: "(of_int (rne (x / pow2 ?ex)) :: real) \<le> of_int (2 ^ nat (?ky - ?ex))"
      by (simp only: of_int_le_iff)
    have D: "pow2 ?ky = of_int (2 ^ nat (?ky - ?ex)) * pow2 ?ex"
    proof -
      have "of_int (2 ^ nat (?ky - ?ex)) = pow2 (?ky - ?ex)" using lt ey by (simp add: pow2_int)
      then show ?thesis by (simp add: pow2_add [symmetric])
    qed
    have "of_int (rne (x / pow2 ?ex)) * pow2 ?ex \<le> pow2 ?ky"
      unfolding D by (rule mult_right_mono[OF C]) simp
    then have small: "nearest x \<le> pow2 ?ky" using x0 by (simp add: nearest_def)
    from small big show ?thesis by linarith
  qed
qed

lemma nearest_mono: "x \<le> y \<Longrightarrow> nearest x \<le> nearest y"
proof -
  assume xy: "x \<le> y"
  consider "0 < x" | "x \<le> 0 \<and> 0 \<le> y" | "y < 0" by linarith
  then show ?thesis
  proof cases
    case 1
    then show ?thesis using xy by (rule nearest_mono_pos)
  next
    case 2
    then show ?thesis using nearest_nonpos[of x] nearest_nonneg[of y] by linarith
  next
    case 3
    then have "nearest (- y) \<le> nearest (- x)" using xy by (intro nearest_mono_pos) simp_all
    then show ?thesis by (simp add: nearest_minus)
  qed
qed


lemma round64_nearest: "\<bar>nearest x\<bar> < 2 ^ 1024 \<Longrightarrow> round64 x = Fin (nearest x)"
  by (simp add: round64_def Let_def abs_less_iff)

lemma nearest_of_int: "\<bar>n\<bar> \<le> 2 ^ 53 \<Longrightarrow> nearest (of_int n) = of_int n"
proof (cases "\<bar>n\<bar> < 2 ^ 53")
  case True
  then show ?thesis using nearest_fixed[of n 0] by simp
next
  case False
  assume "\<bar>n\<bar> \<le> 2 ^ 53"
  with False have "n = 2 ^ 53 \<or> n = - (2 ^ 53)" by linarith
  then show ?thesis
    using nearest_fixed[of 1 53] nearest_fixed[of "- 1" 53] by auto
qed

lemma two53_less: "(2::real) ^ 53 < 2 ^ 1024"
  by (rule power_strict_increasing) simp_all

lemma round64_of_int: "\<bar>n\<bar> \<le> 2 ^ 53 \<Longrightarrow> round64 (of_int n) = Fin (of_int n)"
proof -
  assume a: "\<bar>n\<bar> \<le> 2 ^ 53"
  have "real_of_int \<bar>n\<bar> \<le> real_of_int (2 ^ 53)" using a by (simp only: of_int_le_iff)
  then have "\<bar>real_of_int n\<bar> \<le> 2 ^ 53" by simp
  then have "\<bar>real_of_int n\<bar> < 2 ^ 1024" using two53_less by linarith
  then show ?thesis using nearest_of_int[OF a] by (simp only: round64_nearest)
qed

lemma round64_numeral [simp]: "numeral k \<le> (2::int) ^ 53 \<Longrightarrow> round64 (numeral k) = Fin (numeral k)"
  using round64_of_int[of "numeral k"] by simp

lemma round64_0 [simp]: "round64 0 = Fin 0"
  using round64_of_int[of 0] by simp

lemma round64_1 [simp]: "round64 1 = Fin 1"
  using round64_of_int[of 1] by simp


lemma nearest_eval:
  assumes "pow2 k \<le> \<bar>x\<bar>" "\<bar>x\<bar> < pow2 (k + 1)" "- 1022 \<le> k"
  shows "nearest x = of_int (rne (x / pow2 (k - 52))) * pow2 (k - 52)"
proof -
  have "0 < \<bar>x\<bar>" using assms(1) pow2_pos[of k] by linarith
  then have x0: "x \<noteq> 0" by simp
  have "\<lfloor>log 2 \<bar>x\<bar>\<rfloor> = k" using floor_log2[OF x0 assms(1,2)] .
  then have "ulpExp x = k - 52" using assms(3) by (simp add: ulpExp_def)
  then show ?thesis using x0 by (simp add: nearest_def)
qed

lemma round64_cases: "round64 x = PInf \<or> round64 x = NInf \<or> round64 x = Fin (nearest x)"
  by (simp add: round64_def Let_def)

lemma round64_not_NaN [simp]: "round64 x \<noteq> NaN"
  using round64_cases[of x] by auto

lemma round64_Fin: "round64 x = Fin y \<Longrightarrow> y = nearest x \<and> \<bar>y\<bar> < 2 ^ 1024"
  by (auto simp: round64_def Let_def abs_less_iff split: if_splits)

lemma big_pos: "(0::real) < 2 ^ 1024"
  by simp

lemma round64_PInf: "round64 x = PInf \<longleftrightarrow> 2 ^ 1024 \<le> nearest x"
  using big_pos by (auto simp: round64_def Let_def split: if_splits)

lemma round64_NInf: "round64 x = NInf \<longleftrightarrow> nearest x \<le> - (2 ^ 1024)"
  using big_pos by (auto simp: round64_def Let_def split: if_splits)

lemma round64_mono: "x \<le> y \<Longrightarrow> dle (round64 x) (round64 y)"
proof -
  assume "x \<le> y"
  then have m: "nearest x \<le> nearest y" by (rule nearest_mono)
  show ?thesis
    using m big_pos by (auto simp: round64_def Let_def)
qed

lemma round64_nonneg: "0 \<le> x \<Longrightarrow> dle (Fin 0) (round64 x)"
  using round64_mono[of 0 x] by simp

lemma round64_nonpos: "x \<le> 0 \<Longrightarrow> dle (round64 x) (Fin 0)"
  using round64_mono[of x 0] by simp

lemma round64_idem: "toDouble (round64 x) = round64 x"
proof -
  consider "round64 x = PInf" | "round64 x = NInf" | "round64 x = Fin (nearest x)"
    using round64_cases[of x] by blast
  then show ?thesis
  proof cases
    case 3
    then have "\<bar>nearest x\<bar> < 2 ^ 1024" using round64_Fin[of x "nearest x"] by simp
    then have "\<bar>nearest (nearest x)\<bar> < 2 ^ 1024" by (simp only: nearest_idem)
    then have "round64 (nearest x) = Fin (nearest x)"
      using round64_nearest[of "nearest x"] by (simp only: nearest_idem)
    then show ?thesis using 3 by (simp add: toDouble_def)
  qed (simp_all add: toDouble_def)
qed

lemma toDouble_Fin: "toDouble (Fin x) = Fin x \<Longrightarrow> nearest x = x \<and> \<bar>x\<bar> < 2 ^ 1024"
  using round64_Fin[of x x] by (simp add: toDouble_def)

lemma dle_refl: "d \<noteq> NaN \<Longrightarrow> dle d d"
  by (cases d) simp_all

lemma dle_trans: "dle a b \<Longrightarrow> dle b c \<Longrightarrow> dle a c"
  by (cases a; cases b; cases c) simp_all

lemma dle_NaN [simp]: "\<not> dle a NaN"
  by (cases a) simp_all

lemma dlt_NaN [simp]: "\<not> dlt a NaN"
  by (cases a) simp_all

lemma dle_PInf [simp]: "dle d PInf \<longleftrightarrow> d \<noteq> NaN"
  by (cases d) simp_all

lemma dle_NInf [simp]: "dle NInf d \<longleftrightarrow> d \<noteq> NaN"
  by (cases d) simp_all

lemma dadd_isDouble: "toDouble a = a \<Longrightarrow> toDouble b = b \<Longrightarrow> toDouble (dadd a b) = dadd a b"
  by (cases a; cases b) (simp_all add: round64_idem, simp_all add: toDouble_def)

lemma dadd_closed: "toDouble (dadd (Fin x) (Fin y)) = dadd (Fin x) (Fin y)"
  by (simp add: round64_idem)

lemma dadd_nonneg: "dle (Fin 0) a \<Longrightarrow> dle (Fin 0) b \<Longrightarrow> dle (Fin 0) (dadd a b)"
  by (cases a; cases b) (simp_all add: round64_nonneg)

lemma dadd_mono: "dle (Fin 0) a \<Longrightarrow> dle a b \<Longrightarrow> dle (Fin 0) c \<Longrightarrow> dle (dadd a c) (dadd b c)"
  by (cases a; cases b; cases c) (simp_all add: round64_mono dle_refl)

lemma dadd_increases:
  assumes "dle (Fin 0) b" "dle (Fin 0) c" "toDouble b = b"
  shows "dle b (dadd b c)"
proof (cases b)
  case (Fin x)
  show ?thesis
  proof (cases c)
    case (Fin y)
    have y: "0 \<le> y" using assms(2) Fin by simp
    have "round64 x = Fin x" using assms(3) \<open>b = Fin x\<close> by (simp add: toDouble_def)
    moreover have "dle (round64 x) (round64 (x + y))" using y by (intro round64_mono) simp
    ultimately show ?thesis using \<open>b = Fin x\<close> Fin by simp
  qed (use assms Fin in simp_all)
next
  case PInf
  then show ?thesis using assms(2) by (cases c) simp_all
next
  case NInf
  then show ?thesis using assms(1) by simp
next
  case NaN
  then show ?thesis using assms(1) by simp
qed

lemma pow2_neg_nat: "pow2 (- int j) = 1 / 2 ^ j"
  by (simp add: power_int_minus field_simps)

lemma nearest_dyadic:
  assumes "rne (x * 2 ^ j) = n" "2 ^ 52 \<le> x * 2 ^ j" "x * 2 ^ j < 2 ^ 53" "j \<le> 1074"
  shows "nearest x = of_int n / 2 ^ j"
proof -
  have p: "(0::real) < 2 ^ j" by simp
  have "(0::real) < 2 ^ 52" by simp
  then have "0 < x * 2 ^ j" using assms(2) by linarith
  then have x: "0 < x" using p by (simp add: zero_less_mult_iff)
  have e: "pow2 (52 - int j) = 2 ^ 52 / 2 ^ j"
    using pow2_div[of 52 "int j", symmetric] by (simp add: pow2_int)
  have e1: "pow2 (52 - int j + 1) = 2 ^ 53 / 2 ^ j"
    using pow2_div[of 53 "int j", symmetric] by (simp add: pow2_int)
  have a: "pow2 (52 - int j) \<le> \<bar>x\<bar>"
    using assms(2) x p unfolding e by (simp add: field_simps)
  have b: "\<bar>x\<bar> < pow2 (52 - int j + 1)"
    using assms(3) x p unfolding e1 by (simp add: field_simps)
  have c: "- 1022 \<le> 52 - int j" using assms(4) by simp
  have "nearest x = of_int (rne (x / pow2 (52 - int j - 52))) * pow2 (52 - int j - 52)"
    by (rule nearest_eval[OF a b c])
  also have "52 - int j - 52 = - int j" by simp
  finally show ?thesis using assms(1) by (simp add: pow2_neg_nat)
qed

lemma nearest_up:
  assumes "of_int n + 1/2 < x * 2 ^ j" "x * 2 ^ j < of_int n + 1" "2 ^ 52 \<le> n" "n < 2 ^ 53" "j \<le> 1074"
  shows "nearest x = of_int (n + 1) / 2 ^ j"
proof -
  have r: "rne (x * 2 ^ j) = n + 1" using assms(1,2) by (rule rne_eval_up)
  have "real_of_int (2 ^ 52) \<le> of_int n" using assms(3) by (simp only: of_int_le_iff)
  then have lo: "2 ^ 52 \<le> x * 2 ^ j" using assms(1) by simp
  have "n + 1 \<le> 2 ^ 53" using assms(4) by simp
  then have "real_of_int (n + 1) \<le> of_int (2 ^ 53)" by (simp only: of_int_le_iff)
  then have hi: "x * 2 ^ j < 2 ^ 53" using assms(2) by simp
  show ?thesis by (rule nearest_dyadic[OF r lo hi assms(5)])
qed

lemma nearest_down:
  assumes "of_int n \<le> x * 2 ^ j" "x * 2 ^ j < of_int n + 1/2" "2 ^ 52 \<le> n" "n < 2 ^ 53" "j \<le> 1074"
  shows "nearest x = of_int n / 2 ^ j"
proof -
  have r: "rne (x * 2 ^ j) = n" using assms(1,2) by (rule rne_eval_down)
  have "real_of_int (2 ^ 52) \<le> of_int n" using assms(3) by (simp only: of_int_le_iff)
  then have lo: "2 ^ 52 \<le> x * 2 ^ j" using assms(1) by simp
  have "n + 1 \<le> 2 ^ 53" using assms(4) by simp
  then have "real_of_int (n + 1) \<le> of_int (2 ^ 53)" by (simp only: of_int_le_iff)
  then have hi: "x * 2 ^ j < 2 ^ 53" using assms(2) by simp
  show ?thesis by (rule nearest_dyadic[OF r lo hi assms(5)])
qed

lemma nearest_exact:
  assumes "\<bar>m\<bar> < 2 ^ 53" "j \<le> 1074"
  shows "nearest (of_int m / 2 ^ j) = of_int m / 2 ^ j"
  using nearest_fixed[OF assms(1), of "- int j"] assms(2) by (simp add: pow2_neg_nat)

lemma nearest_9_10: "nearest (9/10) = 8106479329266893 / 2 ^ 53"
  using nearest_up[of 8106479329266892 "9/10" 53] by simp

lemma nearest_1_10: "nearest (1/10) = 7205759403792794 / 2 ^ 56"
  using nearest_up[of 7205759403792793 "1/10" 56] by simp

lemma nearest_95_100: "nearest (95/100) = 8556839292003942 / 2 ^ 53"
  using nearest_down[of 8556839292003942 "95/100" 53] by simp

lemma nearest_1_100: "nearest (1/100) = 5764607523034235 / 2 ^ 59"
  using nearest_up[of 5764607523034234 "1/100" 59] by simp

lemma nearest_2_100: "nearest (2/100) = 5764607523034235 / 2 ^ 58"
  using nearest_up[of 5764607523034234 "2/100" 58] by simp

lemma nearest_5001: "nearest (50 + 5764607523034235 / 2 ^ 59) = 7038281792649953 / 2 ^ 47"
  using nearest_down[of 7038281792649953 "50 + 5764607523034235 / 2 ^ 59" 47] by simp

lemma round64_eq: "nearest x = y \<Longrightarrow> \<bar>y\<bar> \<le> 2 ^ 53 \<Longrightarrow> round64 x = Fin y"
  using round64_nearest[of x] two53_less by simp

lemma round64_up:
  assumes "of_int n + 1/2 < x * 2 ^ j" "x * 2 ^ j < of_int n + 1" "2 ^ 52 \<le> n" "n < 2 ^ 53" "j \<le> 1074"
  shows "round64 x = Fin (of_int (n + 1) / 2 ^ j)"
proof -
  have n: "nearest x = of_int (n + 1) / 2 ^ j" by (rule nearest_up[OF assms])
  have "n + 1 \<le> 2 ^ 53" "0 \<le> n + 1" using assms(3,4) by simp_all
  then have "real_of_int (n + 1) \<le> of_int (2 ^ 53)" "(0::real) \<le> of_int (n + 1)"
    by (simp_all only: of_int_le_iff of_int_0_le_iff)
  then have a: "real_of_int (n + 1) \<le> 2 ^ 53" "(0::real) \<le> of_int (n + 1)" by simp_all
  have "real_of_int (n + 1) / 2 ^ j \<le> of_int (n + 1) / 1"
    by (rule divide_left_mono) (use a in simp_all)
  then have "\<bar>real_of_int (n + 1) / 2 ^ j\<bar> \<le> 2 ^ 53" using a by simp
  then show ?thesis using n by (rule round64_eq[rotated])
qed

lemma round64_down:
  assumes "of_int n \<le> x * 2 ^ j" "x * 2 ^ j < of_int n + 1/2" "2 ^ 52 \<le> n" "n < 2 ^ 53" "j \<le> 1074"
  shows "round64 x = Fin (of_int n / 2 ^ j)"
proof -
  have n: "nearest x = of_int n / 2 ^ j" by (rule nearest_down[OF assms])
  have "n \<le> 2 ^ 53" "0 \<le> n" using assms(3,4) by simp_all
  then have "real_of_int n \<le> of_int (2 ^ 53)" "(0::real) \<le> of_int n"
    by (simp_all only: of_int_le_iff of_int_0_le_iff)
  then have a: "real_of_int n \<le> 2 ^ 53" "(0::real) \<le> of_int n" by simp_all
  have "real_of_int n / 2 ^ j \<le> of_int n / 1"
    by (rule divide_left_mono) (use a in simp_all)
  then have "\<bar>real_of_int n / 2 ^ j\<bar> \<le> 2 ^ 53" using a by simp
  then show ?thesis using n by (rule round64_eq[rotated])
qed

lemma round64_dyadic:
  assumes "x * 2 ^ j = of_int m" "\<bar>m\<bar> < 2 ^ 53" "j \<le> 1074"
  shows "round64 x = Fin x"
proof -
  have x: "x = of_int m / 2 ^ j" using assms(1) by (simp add: field_simps)
  have n: "nearest x = x" unfolding x by (rule nearest_exact[OF assms(2,3)])
  have "\<bar>m\<bar> \<le> 2 ^ 53" using assms(2) by simp
  then have "real_of_int \<bar>m\<bar> \<le> of_int (2 ^ 53)" by (simp only: of_int_le_iff)
  then have a: "\<bar>real_of_int m\<bar> \<le> 2 ^ 53" by simp
  have "\<bar>real_of_int m\<bar> / 2 ^ j \<le> \<bar>of_int m\<bar> / 1"
    by (rule divide_left_mono) simp_all
  then have "\<bar>x\<bar> \<le> 2 ^ 53" using a unfolding x by simp
  then show ?thesis using n by (rule round64_eq[rotated])
qed

lemma round64_error:
  "round64 y = Fin z \<Longrightarrow> \<bar>z - y\<bar> \<le> \<bar>y\<bar> / 2 ^ 53 + 1 / 2 ^ 1075"
  using round64_Fin[of y z] nearest_error[of y] by simp

lemma dmin_Fin [simp]: "dmin (Fin x) (Fin y) = Fin (min x y)"
  by (simp add: min_def)

lemma dsub_Fin [simp]: "dsub (Fin x) (Fin y) = round64 (x - y)"
  by (simp add: dsub_def)

lemma orZero_Fin [simp]: "orZero (Fin x) = Fin x" "orZero NaN = Fin 0" "orZero PInf = PInf" "orZero NInf = NInf"
  by (simp_all add: orZero_def)

lemma jsonNumber_Fin [simp]: "jsonNumber (Fin x) = Fin x"
  by (simp add: jsonNumber_def)

lemma dadd_isDouble_any: "toDouble (dadd a b) = dadd a b"
  by (cases a; cases b) (simp_all add: round64_idem, simp_all add: toDouble_def)

lemma lockAmount_nonneg:
  assumes "0 < x" "dle (Fin 0) pct" "dle pct (Fin 100)"
  shows "dle (Fin 0) (ddiv (dmul (Fin x) pct) (Fin 100))"
proof -
  obtain q where q: "pct = Fin q" "0 \<le> q" using assms(2,3) by (cases pct) simp_all
  have xq: "0 \<le> x * q" using assms(1) q(2) by simp
  consider "round64 (x * q) = PInf" | "round64 (x * q) = NInf" | "round64 (x * q) = Fin (nearest (x * q))"
    using round64_cases[of "x * q"] by blast
  then show ?thesis
  proof cases
    case 1
    then show ?thesis by (simp add: q dinf_def dsgn_def)
  next
    case 2
    then show ?thesis using round64_nonneg[OF xq] by simp
  next
    case 3
    have "0 \<le> nearest (x * q) / 100" using nearest_nonneg[OF xq] by simp
    then show ?thesis using 3 by (simp add: q round64_nonneg)
  qed
qed

section \<open>The profit-lock ledger\<close>

text \<open>
  C6, as the code has it. For a withdrawal request \<open>x\<close> (the number \<open>parseFloat\<close> reads)
  with prior locked balance \<open>L\<close>: if \<open>x > 0\<close> and \<open>L > 0\<close>, the handler answers
  \<open>min(x, L)\<close>, sets \<open>lockedBalance\<close> to the number \<open>L - min(x, L)\<close> rounds to and
  the portfolio's \<open>balance\<close> property to the number \<open>balance + min(x, L)\<close> rounds to, and
  leaves the portfolio's \<open>value\<close> (the balance that trades update) as it was. On finite
  numbers each result is within one rounding of the exact difference or sum (relative
  error at most \<open>2 ^ - 53\<close>), and is exact when the exact result is a binary64 value.
  A request that is not a number, is not positive or is missing, and any request while
  \<open>L = 0\<close>, is rejected with no change of state.
\<close>

theorem withdraw_moves_locked_to_balance:
  "(dlt (Fin 0) a \<and> dlt (Fin 0) (lockedBalance (lock s)) \<longrightarrow>
      fst (withdraw (Some a) s) = Inr (dmin a (lockedBalance (lock s))) \<and>
      lockedBalance (lock (snd (withdraw (Some a) s)))
        = dsub (lockedBalance (lock s)) (dmin a (lockedBalance (lock s))) \<and>
      balance (portfolio (snd (withdraw (Some a) s)))
        = dadd (balance (portfolio s)) (dmin a (lockedBalance (lock s))) \<and>
      pvalue (portfolio (snd (withdraw (Some a) s))) = pvalue (portfolio s)) \<and>
   (0 < x \<and> 0 < l \<and> lockedBalance (lock s) = Fin l \<and> balance (portfolio s) = Fin b \<longrightarrow>
      fst (withdraw (Some (Fin x)) s) = Inr (Fin (min x l)) \<and>
      lockedBalance (lock (snd (withdraw (Some (Fin x)) s))) = round64 (l - min x l) \<and>
      balance (portfolio (snd (withdraw (Some (Fin x)) s))) = round64 (b + min x l) \<and>
      (lockedBalance (lock (snd (withdraw (Some (Fin x)) s))) = Fin l' \<longrightarrow>
         \<bar>l' - (l - min x l)\<bar> \<le> \<bar>l - min x l\<bar> / 2 ^ 53 + 1 / 2 ^ 1075) \<and>
      (balance (portfolio (snd (withdraw (Some (Fin x)) s))) = Fin b' \<longrightarrow>
         \<bar>b' - (b + min x l)\<bar> \<le> \<bar>b + min x l\<bar> / 2 ^ 53 + 1 / 2 ^ 1075) \<and>
      (isDouble (Fin (l - min x l)) \<and> isDouble (Fin (b + min x l)) \<longrightarrow>
         lockedBalance (lock (snd (withdraw (Some (Fin x)) s))) = Fin (l - min x l) \<and>
         balance (portfolio (snd (withdraw (Some (Fin x)) s))) = Fin (b + min x l))) \<and>
   (a = NaN \<or> dle a (Fin 0) \<or> lockedBalance (lock s) = Fin 0 \<longrightarrow>
      (\<exists>msg. fst (withdraw (Some a) s) = Inl msg) \<and> snd (withdraw (Some a) s) = s) \<and>
   (\<exists>msg. fst (withdraw None s) = Inl msg) \<and> snd (withdraw None s) = s"
proof -
  have A: "dlt (Fin 0) a \<and> dlt (Fin 0) (lockedBalance (lock s)) \<longrightarrow>
      fst (withdraw (Some a) s) = Inr (dmin a (lockedBalance (lock s))) \<and>
      lockedBalance (lock (snd (withdraw (Some a) s)))
        = dsub (lockedBalance (lock s)) (dmin a (lockedBalance (lock s))) \<and>
      balance (portfolio (snd (withdraw (Some a) s)))
        = dadd (balance (portfolio s)) (dmin a (lockedBalance (lock s))) \<and>
      pvalue (portfolio (snd (withdraw (Some a) s))) = pvalue (portfolio s)"
    by (cases a; cases "lockedBalance (lock s)") (auto simp: withdraw_def Let_def)
  have B: "0 < x \<and> 0 < l \<and> lockedBalance (lock s) = Fin l \<and> balance (portfolio s) = Fin b \<longrightarrow>
      fst (withdraw (Some (Fin x)) s) = Inr (Fin (min x l)) \<and>
      lockedBalance (lock (snd (withdraw (Some (Fin x)) s))) = round64 (l - min x l) \<and>
      balance (portfolio (snd (withdraw (Some (Fin x)) s))) = round64 (b + min x l)"
    by (auto simp: withdraw_def Let_def)
  have C: "a = NaN \<or> dle a (Fin 0) \<or> lockedBalance (lock s) = Fin 0 \<longrightarrow>
      (\<exists>msg. fst (withdraw (Some a) s) = Inl msg) \<and> snd (withdraw (Some a) s) = s"
    by (cases a) (auto simp: withdraw_def Let_def)
  have D: "(\<exists>msg. fst (withdraw None s) = Inl msg) \<and> snd (withdraw None s) = s"
    by (simp add: withdraw_def)
  have E: "round64 (l - min x l) = Fin l' \<longrightarrow>
         \<bar>l' - (l - min x l)\<bar> \<le> \<bar>l - min x l\<bar> / 2 ^ 53 + 1 / 2 ^ 1075"
    using round64_error by blast
  have F: "round64 (b + min x l) = Fin b' \<longrightarrow>
         \<bar>b' - (b + min x l)\<bar> \<le> \<bar>b + min x l\<bar> / 2 ^ 53 + 1 / 2 ^ 1075"
    using round64_error by blast
  have G: "isDouble (Fin (l - min x l)) \<and> isDouble (Fin (b + min x l)) \<longrightarrow>
         round64 (l - min x l) = Fin (l - min x l) \<and> round64 (b + min x l) = Fin (b + min x l)"
    by (simp add: isDouble_def toDouble_def)
  from A B C D E F G show ?thesis by presburger
qed

text \<open>
  C6 at concrete inputs: a request of 5 against 3 locked units moves 3, exactly; a request
  of \<open>-1\<close> is rejected.
\<close>

theorem withdraw_moves_locked_to_balance_witness:
  "dlt (Fin 0) (Fin 5) \<and> dlt (Fin 0) (lockedBalance (lock lockedState)) \<and>
   isDouble (Fin (3 - min 5 3)) \<and> isDouble (Fin (50 + min 5 3)) \<and>
   fst (withdraw (Some (Fin 5)) lockedState) = Inr (Fin 3) \<and>
   lockedBalance (lock (snd (withdraw (Some (Fin 5)) lockedState))) = Fin 0 \<and>
   balance (portfolio (snd (withdraw (Some (Fin 5)) lockedState))) = Fin 53 \<and>
   pvalue (portfolio (snd (withdraw (Some (Fin 5)) lockedState))) = Fin 50 \<and>
   snd (withdraw (Some (Fin (- 1))) lockedState) = lockedState"
  using withdraw_moves_locked_to_balance [of "Fin 5" lockedState 5 3 50 0 53]
    withdraw_moves_locked_to_balance [of "Fin (- 1)" lockedState 5 3 50 0 53]
  by (simp add: lockedState_def initialState_def isDouble_def toDouble_def)

text \<open>
  C6 as stated fails. With 50 in the portfolio and the number \<open>0.02\<close> locked, a
  withdrawal of the number \<open>0.01\<close> is accepted; the portfolio's \<open>balance\<close> property
  becomes \<open>50.01 = 7038281792649953 / 2 ^ 47\<close>, which is not \<open>50\<close> plus the amount
  withdrawn, the sum of \<open>balance\<close> and \<open>lockedBalance\<close> changes (as real numbers, and
  as the program adds them: \<open>50.019999999999996\<close> after, \<open>50.02\<close> before), and the
  portfolio's \<open>value\<close>, the balance that trades update, is not credited at all.
\<close>

theorem withdraw_sum_counterexample:
  "lockedBalance (lock centsState) = Fin (5764607523034235 / 2 ^ 58) \<and>
   balance (portfolio centsState) = Fin 50 \<and> pvalue (portfolio centsState) = Fin 50 \<and>
   round64 (1 / 100) = Fin (5764607523034235 / 2 ^ 59) \<and>
   fst (withdraw (Some (round64 (1 / 100))) centsState) = Inr (Fin (5764607523034235 / 2 ^ 59)) \<and>
   lockedBalance (lock (snd (withdraw (Some (round64 (1 / 100))) centsState)))
     = Fin (5764607523034235 / 2 ^ 59) \<and>
   balance (portfolio (snd (withdraw (Some (round64 (1 / 100))) centsState)))
     = Fin (7038281792649953 / 2 ^ 47) \<and>
   (7038281792649953 / 2 ^ 47 - 50 :: real) \<noteq> 5764607523034235 / 2 ^ 59 \<and>
   (7038281792649953 / 2 ^ 47 + 5764607523034235 / 2 ^ 59 :: real)
     \<noteq> 50 + 5764607523034235 / 2 ^ 58 \<and>
   dadd (balance (portfolio (snd (withdraw (Some (round64 (1 / 100))) centsState))))
        (lockedBalance (lock (snd (withdraw (Some (round64 (1 / 100))) centsState))))
     = Fin (3519844583766753 / 2 ^ 46) \<and>
   dadd (balance (portfolio centsState)) (lockedBalance (lock centsState))
     = Fin (7039689167533507 / 2 ^ 47) \<and>
   pvalue (portfolio (snd (withdraw (Some (round64 (1 / 100))) centsState))) = Fin 50"
  using round64_up[of 5764607523034234 "1/100" 59] round64_up[of 5764607523034234 "2/100" 58]
    round64_dyadic[of "5764607523034235 / 2 ^ 58 - 5764607523034235 / 2 ^ 59" 59 5764607523034235]
    round64_down[of 7038281792649953 "50 + 5764607523034235 / 2 ^ 59" 47]
    round64_down[of 7039689167533506 "7038281792649953 / 2 ^ 47 + 5764607523034235 / 2 ^ 59" 47]
    round64_up[of 7039689167533506 "50 + 5764607523034235 / 2 ^ 58" 47]
  by (simp add: centsState_def initialState_def withdraw_def Let_def)

text \<open>
  C7. From any stopped session whose profit lock is enabled at 20 percentage points, a
  demo start gives the balance 50.00, and one trade with profit \<open>+5.00\<close> then gives
  balance 55.00 (the \<open>value\<close> property, which is what viewers are sent as balance),
  cumulative P&L 5.00, \<open>lockedBalance\<close> 1.00 and \<open>totalLocked\<close> 1.00: the locked skim is
  not deducted from the balance.
\<close>

theorem demo_trade_scenario:
  assumes "\<not> isRunning s" "lockEnabled (lock s)" "percentage (lock s) = Fin 20" "profit t = Fin 5"
  shows "let s1 = snd (startTrading h fsok now sock (Some ''demo'') s);
             s2 = updatePortfolio now' t s1
         in pvalue (portfolio s1) = Fin 50 \<and> isRunning s1 \<and> mode s1 = ''demo'' \<and>
            pvalue (portfolio s2) = Fin 55 \<and> msgBalance (updatePortfolioBroadcast s2) = Fin 55 \<and>
            totalPnL (portfolio s2) = Fin 5 \<and>
            lockedBalance (lock s2) = Fin 1 \<and> totalLocked (lock s2) = Fin 1"
  using assms
  by (simp add: startTrading_def requestedMode_def startMarketDataTrading_def demoReset_def
        updatePortfolio_def updatePortfolioBroadcast_def Let_def)

text \<open>
C7 at the server's initial state.
\<close>

theorem demo_trade_scenario_witness:
  "(let s1 = snd (startTrading sampleHash True 0 0 (Some ''demo'') (initialState None emptyDisk));
        s2 = updatePortfolio 1000 fiveProfit s1
    in pvalue (portfolio s1) = Fin 50 \<and> pvalue (portfolio s2) = Fin 55 \<and>
       totalPnL (portfolio s2) = Fin 5 \<and>
       lockedBalance (lock s2) = Fin 1 \<and> totalLocked (lock s2) = Fin 1) \<and>
   \<not> isRunning (initialState None emptyDisk) \<and>
   lockEnabled (lock (initialState None emptyDisk)) \<and>
   percentage (lock (initialState None emptyDisk)) = Fin 20 \<and> profit fiveProfit = Fin 5"
proof -
  have a: "\<not> isRunning (initialState None emptyDisk)"
    and b: "lockEnabled (lock (initialState None emptyDisk))"
    and c: "percentage (lock (initialState None emptyDisk)) = Fin 20"
    and d: "profit fiveProfit = Fin 5"
    by (simp_all add: initialState_def fiveProfit_def)
  from demo_trade_scenario [OF a b c d, of sampleHash True 0 0 1000] a b c d
  show ?thesis by (simp add: Let_def)
qed

text \<open>
  C9, as the code has it. The ledger has two balance fields. Applying a trade adds the
  profit to the portfolio's \<open>value\<close> and leaves the portfolio's \<open>balance\<close> as it was;
  the message sent on connect and the broadcast after every trade report \<open>value\<close> as
  balance. A withdrawal credits only the portfolio's \<open>balance\<close>: \<open>value\<close>, and with it
  the balance sent on connect, is the same before and after, and a trade applied after a
  withdrawal still yields the old \<open>value\<close> plus its profit. The broadcast of an accepted
  withdrawal itself, however, reports the portfolio's \<open>balance\<close> as balance.
\<close>

theorem two_balance_fields:
  "pvalue (portfolio (updatePortfolio now t s)) = dadd (pvalue (portfolio s)) (orZero (profit t)) \<and>
   balance (portfolio (updatePortfolio now t s)) = balance (portfolio s) \<and>
   msgBalance (updatePortfolioBroadcast s) = pvalue (portfolio s) \<and>
   msgBalance (sendInitialState s) = pvalue (portfolio s) \<and>
   pvalue (portfolio (snd (withdraw amount s))) = pvalue (portfolio s) \<and>
   msgBalance (sendInitialState (snd (withdraw amount s))) = msgBalance (sendInitialState s) \<and>
   balance (portfolio (snd (withdraw amount s)))
     = (case fst (withdraw amount s) of
          Inr w \<Rightarrow> dadd (balance (portfolio s)) w | Inl msg \<Rightarrow> balance (portfolio s)) \<and>
   withdrawEmits amount s
     = (case fst (withdraw amount s) of
          Inr w \<Rightarrow> [withdrawBroadcast (snd (withdraw amount s))] | Inl msg \<Rightarrow> []) \<and>
   msgBalance (withdrawBroadcast (snd (withdraw amount s)))
     = balance (portfolio (snd (withdraw amount s))) \<and>
   pvalue (portfolio (updatePortfolio now t (snd (withdraw amount s))))
     = dadd (pvalue (portfolio s)) (orZero (profit t))"
  by (auto simp: updatePortfolio_def withdraw_def sendInitialState_def updatePortfolioBroadcast_def
        withdrawBroadcast_def withdrawEmits_def Let_def split: option.splits sum.splits)

text \<open>
  C9 at concrete inputs: three locked units are withdrawn and a trade with profit 5 is
  applied.
\<close>

theorem two_balance_fields_witness:
  "pvalue (portfolio (snd (withdraw (Some (Fin 5)) lockedState))) = Fin 50 \<and>
   balance (portfolio (snd (withdraw (Some (Fin 5)) lockedState))) = Fin 53 \<and>
   map msgBalance (withdrawEmits (Some (Fin 5)) lockedState) = [Fin 53] \<and>
   msgBalance (sendInitialState (snd (withdraw (Some (Fin 5)) lockedState))) = Fin 50 \<and>
   pvalue (portfolio (updatePortfolio 0 fiveProfit (snd (withdraw (Some (Fin 5)) lockedState)))) = Fin 55 \<and>
   balance (portfolio (updatePortfolio 0 fiveProfit lockedState)) = Fin 50"
  using two_balance_fields [of 0 fiveProfit lockedState "Some (Fin 5)"]
  by (simp add: lockedState_def initialState_def fiveProfit_def withdraw_def sendInitialState_def
      withdrawEmits_def withdrawBroadcast_def updatePortfolioBroadcast_def updatePortfolio_def Let_def)

text \<open>
  C9 as stated fails. After the demo session with one trade of profit 5, viewers have been
  sent the balance 55; a withdrawal of 1 is accepted and its broadcast reports the balance
  51, so the balance that viewers observe changes at a withdrawal. A viewer that connects
  afterwards is sent 55 again.
\<close>

theorem withdrawal_broadcast_counterexample:
  "msgBalance (sendInitialState (run sampleHash demoTrace (initialState None emptyDisk))) = Fin 55 \<and>
   msgBalance (updatePortfolioBroadcast (run sampleHash demoTrace (initialState None emptyDisk)))
     = Fin 55 \<and>
   fst (withdraw (Some (Fin 1)) (run sampleHash demoTrace (initialState None emptyDisk)))
     = Inr (Fin 1) \<and>
   map msgBalance (withdrawEmits (Some (Fin 1)) (run sampleHash demoTrace (initialState None emptyDisk)))
     = [Fin 51] \<and>
   msgBalance (sendInitialState
      (snd (withdraw (Some (Fin 1)) (run sampleHash demoTrace (initialState None emptyDisk)))))
     = Fin 55"
  by (simp add: demoTrace_def initialState_def emptyDisk_def sampleHash_def startTrading_def
      requestedMode_def noWallet_def addrOf_def demoReset_def startMarketDataTrading_def
      tickBegin_def tickEnd_def updatePortfolio_def withdraw_def withdrawEmits_def
      withdrawBroadcast_def sendInitialState_def updatePortfolioBroadcast_def Let_def)

text \<open>
  C10. Profit-lock configuration is not atomic: a request that carries an \<open>enabled\<close>
  value together with a percentage outside \<open>[0, 100]\<close> is answered with the
  validation error, the \<open>enabled\<close> value has been stored all the same, and the
  percentage is unchanged.
\<close>

theorem configure_not_atomic:
  "dlt p (Fin 0) \<or> dlt (Fin 100) p \<Longrightarrow>
     fst (configure (Some p) (Some e) s) = Inl ''Percentage must be between 0 and 100'' \<and>
     lockEnabled (lock (snd (configure (Some p) (Some e) s))) = e \<and>
     percentage (lock (snd (configure (Some p) (Some e) s))) = percentage (lock s)"
  by (auto simp: configure_def Let_def)

text \<open>
C10 at the initial state: disabling the lock with a percentage of 150.
\<close>

theorem configure_not_atomic_witness:
  "lockEnabled (lock (initialState None emptyDisk)) \<and>
   fst (configure (Some (Fin 150)) (Some False) (initialState None emptyDisk))
     = Inl ''Percentage must be between 0 and 100'' \<and>
   \<not> lockEnabled (lock (snd (configure (Some (Fin 150)) (Some False) (initialState None emptyDisk)))) \<and>
   percentage (lock (snd (configure (Some (Fin 150)) (Some False) (initialState None emptyDisk)))) = Fin 20"
  using configure_not_atomic [of "Fin 150" False "initialState None emptyDisk"]
  by (simp add: initialState_def)

section \<open>The disabled scorer\<close>

text \<open>
  C3, as the code has it. While the scorer is disabled, \<open>predict\<close> returns a record
  tagged \<open>isDisabled\<close> and leaves the bridge (feature weights included) as it was, and
  \<open>learnFromTrade\<close> returns \<open>false\<close> and leaves the whole bridge as it was: accuracy,
  feature weights and also the success and failure counters.
\<close>

theorem disabled_scorer:
  "\<not> enabled b \<Longrightarrow>
     isDisabled (fst (predict r1 r2 now ed b)) \<and> snd (predict r1 r2 now ed b) = b \<and>
     learnFromTrade r t b = (False, b)"
  by (simp add: predict_def learnFromTrade_def)

text \<open>C3 at a concrete input: the fresh bridge, disabled.\<close>

theorem disabled_scorer_witness:
  "\<not> enabled (setEnabled False newMLBridge) \<and>
   isDisabled (fst (predict 0.5 0.5 0 (\<lambda>_. None) (setEnabled False newMLBridge))) \<and>
   featureImportance (snd (predict 0.5 0.5 0 (\<lambda>_. None) (setEnabled False newMLBridge)))
     = featureImportance newMLBridge \<and>
   learnFromTrade noRandom wonTrade (setEnabled False newMLBridge)
     = (False, setEnabled False newMLBridge)"
  using disabled_scorer [of "setEnabled False newMLBridge" "0.5" "0.5" 0 "\<lambda>_. None" noRandom wonTrade]
  by (simp add: setEnabled_def)

text \<open>C3 as stated fails: learning from a successful trade on a disabled scorer does
  not increment the success counter.\<close>

theorem disabled_learn_counterexample:
  "\<not> enabled (setEnabled False newMLBridge) \<and> msuccess wonTrade \<and>
   successfulTrades (snd (learnFromTrade noRandom wonTrade (setEnabled False newMLBridge)))
     \<noteq> successfulTrades (setEnabled False newMLBridge) + 1"
  by (simp add: learnFromTrade_def setEnabled_def wonTrade_def)

section \<open>Invariants of the session controller\<close>

subsection \<open>The profit-lock invariant\<close>

lemma updatePortfolio_frame [simp]:
  "files (updatePortfolio now t s) = files s"
  "trades (updatePortfolio now t s) = trades s"
  "mode (updatePortfolio now t s) = mode s"
  "isRunning (updatePortfolio now t s) = isRunning s"
  "walletAddress (updatePortfolio now t s) = walletAddress s"
  "sockets (updatePortfolio now t s) = sockets s"
  by (simp_all add: updatePortfolio_def Let_def)

lemma updatePortfolio_lock_both:
  assumes "lockOk (lock s)" "bounded (profit t)"
  shows "lockOk (lock (updatePortfolio now t s)) \<and>
         dle (totalLocked (lock s)) (totalLocked (lock (updatePortfolio now t s)))"
proof -
  let ?l = "lock s"
  have L: "dle (Fin 0) (lockedBalance ?l)" "dle (lockedBalance ?l) (totalLocked ?l)"
    "toDouble (totalLocked ?l) = totalLocked ?l"
    "dle (Fin 0) (percentage ?l)" "dle (percentage ?l) (Fin 100)"
    using assms(1) by (simp_all add: lockOk_def pctOk_def isDouble_def)
  have T0: "dle (Fin 0) (totalLocked ?l)" using L(1,2) by (rule dle_trans)
  have TT: "dle (totalLocked ?l) (totalLocked ?l)" using T0 by (cases "totalLocked ?l") simp_all
  show ?thesis
  proof (cases "lockEnabled ?l \<and> dlt (Fin 0) (orZero (profit t))")
    case False
    then show ?thesis
      using assms(1) TT by (auto simp: updatePortfolio_def Let_def)
  next
    case True
    then obtain x where x: "orZero (profit t) = Fin x" "0 < x"
      using assms(2) by (cases "profit t") (simp_all add: bounded_def)
    let ?a = "ddiv (dmul (Fin x) (percentage ?l)) (Fin 100)"
    have a: "dle (Fin 0) ?a" by (rule lockAmount_nonneg[OF x(2) L(4,5)])
    have l': "lock (updatePortfolio now t s) =
        ?l\<lparr> lockedBalance := dadd (lockedBalance ?l) ?a, totalLocked := dadd (totalLocked ?l) ?a,
            lastLockTime := Some now,
            history := history ?l @ [\<lparr> lockTradeId = tradeId t, lockProfit = Fin x,
                                      lockAmount = ?a, lockTime = now \<rparr>] \<rparr>"
      using True x by (simp add: updatePortfolio_def Let_def)
    have "lockOk (lock (updatePortfolio now t s))"
      unfolding l'
      using dadd_nonneg[OF L(1) a] dadd_mono[OF L(1,2) a] L(4,5)
      by (simp add: lockOk_def pctOk_def isDouble_def dadd_isDouble_any)
    moreover have "dle (totalLocked (lock s)) (totalLocked (lock (updatePortfolio now t s)))"
      unfolding l' using dadd_increases[OF T0 a L(3)] by simp
    ultimately show ?thesis by simp
  qed
qed

lemma updatePortfolio_lock:
  assumes "lockOk (lock s)" "bounded (profit t)"
  shows "lockOk (lock (updatePortfolio now t s))"
    and "dle (totalLocked (lock s)) (totalLocked (lock (updatePortfolio now t s)))"
  using updatePortfolio_lock_both[OF assms, of now] by simp_all

lemma updateMLStats_frame [simp]:
  "files (updateMLStats r pd succ s) = files s"
  "lock (updateMLStats r pd succ s) = lock s"
  "trades (updateMLStats r pd succ s) = trades s"
  "mode (updateMLStats r pd succ s) = mode s"
  "isRunning (updateMLStats r pd succ s) = isRunning s"
  "walletAddress (updateMLStats r pd succ s) = walletAddress s"
  by (simp_all add: updateMLStats_def Let_def)

lemma pctOk_jsonLock [simp]: "pctOk (jsonLock l) = pctOk l"
  by (simp add: pctOk_def jsonLock_def)

lemma saveWalletState_inv:
  "ledgerInv s \<Longrightarrow> ledgerInv (snd (saveWalletState h fsok now wa s))"
  by (auto simp: saveWalletState_def ledgerInv_def lockOk_def split: option.splits)

lemma saveWalletState_lock [simp]:
  "lock (snd (saveWalletState h fsok now wa s)) = lock s"
  by (auto simp: saveWalletState_def split: option.splits)

text \<open>Every accepted start leaves a ledger that satisfies the invariant, provided the
  percentages in the state and in the wallet files are within the range.\<close>

lemma loadWalletState_pct:
  assumes "pctOk (lock s)" "\<forall>k w. files s k = Some w \<longrightarrow> pctOk (wsProfitLock w)"
  shows "pctOk (lock (snd (loadWalletState h fsok wa s)))"
    and "files (snd (loadWalletState h fsok wa s)) = files s"
  using assms by (auto simp: loadWalletState_def split: option.splits)

lemma liveRestore_pct:
  assumes "pctOk (lock s)" "\<forall>k w. files s k = Some w \<longrightarrow> pctOk (wsProfitLock w)"
  shows "pctOk (lock (liveRestore h fsok wa s))"
    and "files (liveRestore h fsok wa s) = files s"
proof -
  obtain b s' where eq: "loadWalletState h fsok wa s = (b, s')"
    by (cases "loadWalletState h fsok wa s")
  have "pctOk (lock s')" "files s' = files s"
    using loadWalletState_pct[OF assms, of h fsok wa] by (simp_all add: eq)
  then show "pctOk (lock (liveRestore h fsok wa s))" "files (liveRestore h fsok wa s) = files s"
    by (cases b; simp add: liveRestore_def eq)+
qed

lemma startMarketDataTrading_inv:
  assumes "pctOk (lock s)" "\<forall>k w. files s k = Some w \<longrightarrow> pctOk (wsProfitLock w)"
  shows "ledgerInv (startMarketDataTrading s)"
  using assms
  by (simp add: startMarketDataTrading_def ledgerInv_def lockOk_def pctOk_def isDouble_def
        toDouble_def)

lemma start_demo_inv:
  assumes "pctOk (lock s)" "\<forall>k w. files s k = Some w \<longrightarrow> pctOk (wsProfitLock w)"
  shows "ledgerInv (startMarketDataTrading (demoReset s))"
  using assms by (intro startMarketDataTrading_inv) (simp_all add: demoReset_def pctOk_def)

lemma start_live_inv:
  assumes "pctOk (lock s)" "\<forall>k w. files s k = Some w \<longrightarrow> pctOk (wsProfitLock w)"
  shows "ledgerInv (startMarketDataTrading (liveRestore h fsok wa s))"
proof (rule startMarketDataTrading_inv)
  show "pctOk (lock (liveRestore h fsok wa s))" by (rule liveRestore_pct(1)[OF assms])
  show "\<forall>k w. files (liveRestore h fsok wa s) k = Some w \<longrightarrow> pctOk (wsProfitLock w)"
    using assms(2) by (simp only: liveRestore_pct(2)[OF assms])
qed

lemma startTrading_inv:
  assumes inv: "ledgerInv s"
  shows "ledgerInv (snd (startTrading h fsok now sock m s))"
proof -
  have p: "pctOk (lock s)" and f: "\<forall>k w. files s k = Some w \<longrightarrow> pctOk (wsProfitLock w)"
    using inv by (simp_all add: ledgerInv_def lockOk_def)
  have d: "\<And>x w. ledgerInv (startMarketDataTrading (demoReset (s\<lparr> mode := x, startTime := Some now,
                       isRunning := True, walletAddress := w \<rparr>)))"
    using p f by (intro start_demo_inv) simp_all
  have l: "\<And>x w wa. ledgerInv (startMarketDataTrading (liveRestore h fsok wa
                (s\<lparr> mode := x, startTime := Some now, isRunning := True, walletAddress := w \<rparr>)))"
    using p f by (intro start_live_inv) simp_all
  show ?thesis
    using inv by (simp add: startTrading_def Let_def d l)
qed

lemma stopTrading_inv: "ledgerInv s \<Longrightarrow> ledgerInv (stopTrading h fsok now s)"
  using saveWalletState_inv[of s h fsok now "walletAddress s"]
  by (auto simp: stopTrading_def Let_def ledgerInv_def)

lemma stopTrading_lock [simp]: "lock (stopTrading h fsok now s) = lock s"
  by (simp add: stopTrading_def Let_def)

lemma connectWallet_lock [simp]: "lock (connectWallet h fsok sock addr s) = lock s"
  by (simp add: connectWallet_def Let_def liveTradingEnabled_def DEMO_MODE_def split: option.splits)

lemma connectWallet_inv: "ledgerInv s \<Longrightarrow> ledgerInv (connectWallet h fsok sock addr s)"
  by (simp add: connectWallet_def Let_def liveTradingEnabled_def DEMO_MODE_def ledgerInv_def
        split: option.splits)

lemma disconnectWallet_lock [simp]: "lock (disconnectWallet h fsok now sock s) = lock s"
  by (simp add: disconnectWallet_def Let_def)

lemma disconnectWallet_inv: "ledgerInv s \<Longrightarrow> ledgerInv (disconnectWallet h fsok now sock s)"
  using saveWalletState_inv[of s h fsok now "addrOf (sockets s sock)"]
  by (auto simp: disconnectWallet_def Let_def ledgerInv_def)

lemma socketDisconnect_lock [simp]: "lock (socketDisconnect h fsok now sock s) = lock s"
  by (simp add: socketDisconnect_def Let_def)

lemma socketDisconnect_inv: "ledgerInv s \<Longrightarrow> ledgerInv (socketDisconnect h fsok now sock s)"
  using saveWalletState_inv[of s h fsok now "addrOf (sockets s sock)"]
  by (auto simp: socketDisconnect_def Let_def ledgerInv_def)

lemma dle_self: "dle a b \<Longrightarrow> dle b b"
  by (cases a; cases b) simp_all

lemma tickEnd_lock_both:
  assumes "ledgerInv s" "numericEvent (TickEnd outcome)"
  shows "ledgerInv (tickEnd now outcome s) \<and>
         dle (totalLocked (lock s)) (totalLocked (lock (tickEnd now outcome s)))"
proof -
  have ok: "lockOk (lock s)" using assms(1) by (simp add: ledgerInv_def)
  have TT: "dle (totalLocked (lock s)) (totalLocked (lock s))"
    using ok by (auto simp: lockOk_def intro: dle_self)
  show ?thesis
  proof (cases "inFlight s = 0 \<or> outcome = None")
    case True
    then show ?thesis
      using assms(1) TT by (auto simp: tickEnd_def Let_def ledgerInv_def)
  next
    case False
    then obtain i p succ score where o: "outcome = Some (i, p, succ, score)" "inFlight s \<noteq> 0"
      by (cases outcome) auto
    have b: "bounded p" using assms(2) by (simp add: numericEvent_def o)
    let ?t = "\<lparr> tradeId = i, profit = p, status = ''completed'', success = succ,
                mlScore = score, details = None \<rparr>"
    let ?s1 = "s\<lparr> inFlight := inFlight s - 1, trades := trades s @ [?t] \<rparr>"
    have e: "tickEnd now outcome s = updatePortfolio now ?t ?s1"
      using o by (simp add: tickEnd_def Let_def)
    have ok1: "lockOk (lock ?s1)" using ok by simp
    have bt: "bounded (profit ?t)" using b by simp
    have "ledgerInv (tickEnd now outcome s)"
      unfolding e using updatePortfolio_lock(1)[OF ok1 bt, of now] assms(1) b
      by (auto simp: ledgerInv_def)
    moreover have "dle (totalLocked (lock s)) (totalLocked (lock (tickEnd now outcome s)))"
      unfolding e using updatePortfolio_lock(2)[OF ok1 bt, of now] by simp
    ultimately show ?thesis by simp
  qed
qed

lemma tickEnd_lock:
  assumes "ledgerInv s" "numericEvent (TickEnd outcome)"
  shows "ledgerInv (tickEnd now outcome s)"
    and "dle (totalLocked (lock s)) (totalLocked (lock (tickEnd now outcome s)))"
  using tickEnd_lock_both[OF assms, of now] by simp_all

lemma replaceFirst_set: "set (replaceFirst i t' ts) \<subseteq> insert t' (set ts)"
  by (induction ts) auto

lemma find_in_set: "find P xs = Some x \<Longrightarrow> x \<in> set xs"
  by (induction xs) (auto split: if_splits)

lemma tradeExecuted_lock_both:
  assumes "ledgerInv s"
  shows "ledgerInv (tradeExecuted r now i succ s) \<and>
         dle (totalLocked (lock s)) (totalLocked (lock (tradeExecuted r now i succ s)))"
proof -
  have ok: "lockOk (lock s)" using assms by (simp add: ledgerInv_def)
  have TT: "dle (totalLocked (lock s)) (totalLocked (lock s))"
    using ok by (auto simp: lockOk_def intro: dle_self)
  show ?thesis
  proof (cases "find (\<lambda>t. tradeId t = i) (trades s)")
    case None
    then show ?thesis
      using assms TT by (simp add: tradeExecuted_def)
  next
    case (Some t)
    show ?thesis
    proof (cases "status t = ''prepared''")
      case False
      then show ?thesis
        using assms TT Some by (simp add: tradeExecuted_def)
    next
      case True
      have tb: "bounded (profit t)"
        using find_in_set[OF Some] assms by (simp add: ledgerInv_def)
      let ?t1 = "t\<lparr> status := (if succ then ''executed_success'' else ''executed_failure''),
                     success := succ \<rparr>"
      let ?t2 = "if succ then ?t1 else ?t1\<lparr> profit := Fin 0 \<rparr>"
      let ?s1 = "s\<lparr> trades := replaceFirst i ?t2 (trades s) \<rparr>"
      have b2: "bounded (profit ?t2)" using tb by (simp add: bounded_def)
      have ok1: "lockOk (lock ?s1)" using ok by simp
      obtain pd where e: "tradeExecuted r now i succ s = updateMLStats r pd succ (updatePortfolio now ?t2 ?s1)"
        using Some True by (simp add: tradeExecuted_def Let_def)
      have tr: "\<forall>u \<in> set (trades ?s1). bounded (profit u)"
        using replaceFirst_set[of i ?t2 "trades s"] b2 assms by (auto simp: ledgerInv_def)
      have "ledgerInv (tradeExecuted r now i succ s)"
        unfolding e using updatePortfolio_lock(1)[OF ok1 b2, of now] assms tr
        by (simp add: ledgerInv_def)
      moreover have "dle (totalLocked (lock s)) (totalLocked (lock (tradeExecuted r now i succ s)))"
        unfolding e using updatePortfolio_lock(2)[OF ok1 b2, of now] by simp
      ultimately show ?thesis by simp
    qed
  qed
qed

lemma tradeExecuted_lock:
  assumes "ledgerInv s"
  shows "ledgerInv (tradeExecuted r now i succ s)"
    and "dle (totalLocked (lock s)) (totalLocked (lock (tradeExecuted r now i succ s)))"
  using tradeExecuted_lock_both[OF assms, of r now i succ] by simp_all

lemma withdraw_lock:
  assumes "ledgerInv s" "numericEvent (Withdraw amount)"
  shows "ledgerInv (snd (withdraw amount s))"
    and "totalLocked (lock (snd (withdraw amount s))) = totalLocked (lock s)"
proof -
  show "totalLocked (lock (snd (withdraw amount s))) = totalLocked (lock s)"
    by (simp add: withdraw_def Let_def split: option.splits)
  have ok: "lockOk (lock s)" using assms(1) by (simp add: ledgerInv_def)
  show "ledgerInv (snd (withdraw amount s))"
  proof (cases "\<exists>w. fst (withdraw amount s) = Inr w")
    case False
    then have "snd (withdraw amount s) = s"
      by (auto simp: withdraw_def Let_def split: option.splits if_splits)
    then show ?thesis using assms(1) by simp
  next
    case True
    then obtain a where a: "amount = Some a" "a \<noteq> NaN" "\<not> dle a (Fin 0)"
      "\<not> dle (dmin a (lockedBalance (lock s))) (Fin 0)"
      by (auto simp: withdraw_def Let_def split: option.splits if_splits)
    have "bounded a" using assms(2) a(1) by (simp add: numericEvent_def)
    then obtain x where x: "a = Fin x" "0 < x" using a(2,3) by (cases a) (simp_all add: bounded_def)
    let ?L = "lockedBalance (lock s)"
    have l': "lock (snd (withdraw amount s)) = (lock s)\<lparr> lockedBalance := dsub ?L (dmin a ?L) \<rparr>"
      and rest: "trades (snd (withdraw amount s)) = trades s" "files (snd (withdraw amount s)) = files s"
      using a by (simp_all add: withdraw_def Let_def)
    have L: "dle (Fin 0) ?L" "dle ?L (totalLocked (lock s))" "toDouble ?L = ?L"
      using ok by (simp_all add: lockOk_def isDouble_def)
    have new: "dle (Fin 0) (dsub ?L (dmin a ?L)) \<and> dle (dsub ?L (dmin a ?L)) ?L \<and>
               toDouble (dsub ?L (dmin a ?L)) = dsub ?L (dmin a ?L)"
    proof (cases ?L)
      case (Fin l)
      have l0: "0 \<le> l" using L(1) Fin by simp
      have r: "round64 l = Fin l" using L(3) Fin by (simp add: toDouble_def)
      have m: "0 \<le> l - min x l" "l - min x l \<le> l" using x(2) l0 by (simp_all add: min_def)
      have d: "dsub ?L (dmin a ?L) = round64 (l - min x l)"
        by (simp only: Fin x dmin_Fin dsub_Fin)
      have "dle (round64 (l - min x l)) (round64 l)" using m(2) by (rule round64_mono)
      then have "dle (round64 (l - min x l)) ?L" by (simp only: r Fin)
      moreover have "dle (Fin 0) (round64 (l - min x l))" by (rule round64_nonneg[OF m(1)])
      moreover have "toDouble (round64 (l - min x l)) = round64 (l - min x l)"
        by (rule round64_idem)
      ultimately show ?thesis by (simp only: d)
    next
      case PInf
      then show ?thesis by (simp add: x dsub_def toDouble_def)
    next
      case NInf
      then show ?thesis using L(1) by simp
    next
      case NaN
      then show ?thesis using L(1) by simp
    qed
    have "dle (dsub ?L (dmin a ?L)) (totalLocked (lock s))"
      using new L(2) dle_trans by blast
    then have "lockOk (lock (snd (withdraw amount s)))"
      unfolding l' using new ok by (simp add: lockOk_def pctOk_def isDouble_def)
    then show ?thesis using assms(1) rest by (simp add: ledgerInv_def)
  qed
qed

lemma configure_lock:
  assumes "ledgerInv s" "numericEvent (Configure pct en)"
  shows "ledgerInv (snd (configure pct en s))"
    and "totalLocked (lock (snd (configure pct en s))) = totalLocked (lock s)"
proof -
  show "totalLocked (lock (snd (configure pct en s))) = totalLocked (lock s)"
    by (simp add: configure_def Let_def split: option.splits)
  have r: "\<And>p. p \<noteq> NaN \<Longrightarrow> \<not> dlt p (Fin 0) \<Longrightarrow> \<not> dlt (Fin 100) p \<Longrightarrow>
                 dle (Fin 0) p \<and> dle p (Fin 100)"
    subgoal for p by (cases p) simp_all
    done
  show "ledgerInv (snd (configure pct en s))"
    using assms r
    by (auto simp: configure_def Let_def ledgerInv_def lockOk_def pctOk_def numericEvent_def
          split: option.splits)
qed

lemma step_ledgerInv:
  assumes inv: "ledgerInv s" and num: "numericEvent (snd e)"
  shows "ledgerInv (step h e s)"
proof -
  obtain now ev where e: "e = (now, ev)" by (cases e)
  have n: "numericEvent ev" using num by (simp add: e)
  show ?thesis
    unfolding e using inv n
    by (cases ev)
       (simp_all add: connectWallet_inv disconnectWallet_inv startTrading_inv stopTrading_inv
          socketDisconnect_inv tickEnd_lock(1) tradeExecuted_lock(1) withdraw_lock(1)
          configure_lock(1),
        simp_all add: ledgerInv_def tickBegin_def toggleMLSocket_def toggleMLRest_def secureSetup_def)
qed

lemma run_ledgerInv:
  "ledgerInv s \<Longrightarrow> \<forall>e \<in> set es. numericEvent (snd e) \<Longrightarrow> ledgerInv (run h es s)"
  by (induction es arbitrary: s) (simp_all add: step_ledgerInv)

lemma startTrading_rejected: "\<not> startAccepted sock m s \<Longrightarrow> snd (startTrading h fsok now sock m s) = s"
  by (auto simp: startTrading_def startAccepted_def Let_def)

lemma step_totalLocked:
  assumes inv: "ledgerInv s" and num: "numericEvent ev" and nr: "\<not> resetsLedger ev s"
  shows "dle (totalLocked (lock s)) (totalLocked (lock (step h (now, ev) s)))"
proof -
  have TT: "dle (totalLocked (lock s)) (totalLocked (lock s))"
    using inv by (auto simp: ledgerInv_def lockOk_def intro: dle_self)
  show ?thesis
    using inv num nr TT
    by (cases ev)
       (simp_all add: tickEnd_lock(2) tradeExecuted_lock(2) withdraw_lock(2) configure_lock(2)
          resetsLedger_def startTrading_rejected
          tickBegin_def toggleMLSocket_def toggleMLRest_def secureSetup_def)
qed

text \<open>
  C8, as the code has it. Take runs whose events carry ordinary numbers: every configured
  percentage is a number, and no synthesized profit or withdrawal amount is infinite.
  From a state with \<open>0 \<le> lockedBalance \<le> totalLocked\<close> and a percentage within
  \<open>[0, 100]\<close> (in the state and in the wallet files), every state such a run reaches
  satisfies \<open>0 \<le> lockedBalance \<le> totalLocked\<close>, whatever the events are: trades,
  withdrawals, configuration, session start, stop and restore. From such a state every
  such event leaves \<open>totalLocked\<close> as it was or increases it, unless it is a session start
  that is accepted. An accepted demo start sets \<open>lockedBalance\<close> and \<open>totalLocked\<close> to
  zero; what an accepted live start does to the counters is not part of this statement.
\<close>

theorem ledger_invariant:
  assumes "ledgerInv s0" "\<forall>e \<in> set es. numericEvent (snd e)"
  shows "ledgerInv (run h es s0) \<and>
         dle (Fin 0) (lockedBalance (lock (run h es s0))) \<and>
         dle (lockedBalance (lock (run h es s0))) (totalLocked (lock (run h es s0))) \<and>
         (\<forall>now e. numericEvent e \<and> \<not> resetsLedger e (run h es s0) \<longrightarrow>
            dle (totalLocked (lock (run h es s0)))
                (totalLocked (lock (step h (now, e) (run h es s0))))) \<and>
         (\<forall>now sock m fsok.
            startAccepted sock m (run h es s0) \<and> requestedMode m = ''demo'' \<longrightarrow>
            lockedBalance (lock (step h (now, StartTrading sock m fsok) (run h es s0))) = Fin 0 \<and>
            totalLocked (lock (step h (now, StartTrading sock m fsok) (run h es s0))) = Fin 0)"
proof -
  have inv: "ledgerInv (run h es s0)"
    using assms by (rule run_ledgerInv)
  then have le: "dle (Fin 0) (lockedBalance (lock (run h es s0)))"
    "dle (lockedBalance (lock (run h es s0))) (totalLocked (lock (run h es s0)))"
    by (simp_all add: ledgerInv_def lockOk_def)
  have mono: "\<forall>now e. numericEvent e \<and> \<not> resetsLedger e (run h es s0) \<longrightarrow>
            dle (totalLocked (lock (run h es s0)))
                (totalLocked (lock (step h (now, e) (run h es s0))))"
    using inv step_totalLocked by blast
  have reset: "\<forall>now sock m fsok.
            startAccepted sock m (run h es s0) \<and> requestedMode m = ''demo'' \<longrightarrow>
            lockedBalance (lock (step h (now, StartTrading sock m fsok) (run h es s0))) = Fin 0 \<and>
            totalLocked (lock (step h (now, StartTrading sock m fsok) (run h es s0))) = Fin 0"
    by (auto simp: startTrading_def startAccepted_def Let_def startMarketDataTrading_def)
  from inv le mono reset show ?thesis by blast
qed

lemma initial_ledgerInv: "ledgerInv (initialState None emptyDisk)"
  by (simp add: ledgerInv_def lockOk_def pctOk_def isDouble_def toDouble_def initialState_def
        emptyDisk_def)

text \<open>
C8 on a demo session with one profitable trade, followed by a withdrawal.
\<close>

theorem ledger_invariant_witness:
  "ledgerInv (initialState None emptyDisk) \<and>
   list_all (\<lambda>e. numericEvent (snd e)) demoTrace \<and>
   numericEvent (Withdraw (Some (Fin 1))) \<and>
   \<not> resetsLedger (Withdraw (Some (Fin 1))) (run sampleHash demoTrace (initialState None emptyDisk)) \<and>
   ledgerInv (run sampleHash demoTrace (initialState None emptyDisk)) \<and>
   dle (lockedBalance (lock (run sampleHash demoTrace (initialState None emptyDisk))))
       (totalLocked (lock (run sampleHash demoTrace (initialState None emptyDisk)))) \<and>
   dle (totalLocked (lock (run sampleHash demoTrace (initialState None emptyDisk))))
       (totalLocked (lock (step sampleHash (3, Withdraw (Some (Fin 1)))
           (run sampleHash demoTrace (initialState None emptyDisk)))))"
proof -
  have n: "\<forall>e \<in> set demoTrace. numericEvent (snd e)"
    by (simp add: demoTrace_def numericEvent_def bounded_def)
  have w: "numericEvent (Withdraw (Some (Fin 1)))"
    by (simp add: numericEvent_def bounded_def)
  have r: "\<not> resetsLedger (Withdraw (Some (Fin 1))) (run sampleHash demoTrace (initialState None emptyDisk))"
    by (simp add: resetsLedger_def)
  have n': "list_all (\<lambda>e. numericEvent (snd e)) demoTrace"
    using n by (simp add: list_all_iff)
  from ledger_invariant [OF initial_ledgerInv n, of sampleHash] w r initial_ledgerInv n'
  show ?thesis by blast
qed

text \<open>
  C8 as stated fails. After the demo session with one trade of profit 5 has been stopped,
  \<open>totalLocked\<close> is 1; the next demo start, a session start and no schema reset, is
  accepted and leaves \<open>totalLocked\<close> at 0.
\<close>

theorem demo_restart_counterexample:
  "totalLocked (lock (step sampleHash (3, StopTrading True)
      (run sampleHash demoTrace (initialState None emptyDisk)))) = Fin 1 \<and>
   resetsLedger (StartTrading 0 (Some ''demo'') True)
     (step sampleHash (3, StopTrading True) (run sampleHash demoTrace (initialState None emptyDisk))) \<and>
   totalLocked (lock (step sampleHash (4, StartTrading 0 (Some ''demo'') True)
      (step sampleHash (3, StopTrading True)
        (run sampleHash demoTrace (initialState None emptyDisk))))) = Fin 0 \<and>
   \<not> dle (Fin 1) (Fin 0)"
  by (simp add: demoTrace_def initialState_def emptyDisk_def sampleHash_def startTrading_def
      requestedMode_def noWallet_def addrOf_def demoReset_def startMarketDataTrading_def
      tickBegin_def tickEnd_def updatePortfolio_def stopTrading_def falsy_def saveWalletState_def
      resetsLedger_def startAccepted_def Let_def)

text \<open>A percentage that is not numeric passes the range check of the configuration
  handler; the next profitable trade then turns both lock counters into \<open>NaN\<close>.\<close>

lemma nonnumeric_percentage_is_stored:
  "fst (configure (Some NaN) None (initialState None emptyDisk)) = Inr () \<and>
   lockedBalance (lock (updatePortfolio 1 fiveProfit
      (snd (configure (Some NaN) None (initialState None emptyDisk))))) = NaN \<and>
   totalLocked (lock (updatePortfolio 1 fiveProfit
      (snd (configure (Some NaN) None (initialState None emptyDisk))))) = NaN \<and>
   \<not> dle NaN NaN"
  by (simp add: configure_def initialState_def updatePortfolio_def fiveProfit_def Let_def)

subsection \<open>Live sessions and their identity\<close>

lemma saveWalletState_ctl [simp]:
  "mode (snd (saveWalletState h fsok now wa s)) = mode s"
  "isRunning (snd (saveWalletState h fsok now wa s)) = isRunning s"
  "walletAddress (snd (saveWalletState h fsok now wa s)) = walletAddress s"
  "sockets (snd (saveWalletState h fsok now wa s)) = sockets s"
  by (auto simp: saveWalletState_def split: option.splits)

lemma loadWalletState_ctl [simp]:
  "mode (snd (loadWalletState h fsok wa s)) = mode s"
  "isRunning (snd (loadWalletState h fsok wa s)) = isRunning s"
  "walletAddress (snd (loadWalletState h fsok wa s)) = walletAddress s"
  by (auto simp: loadWalletState_def split: option.splits)

lemma liveRestore_ctl [simp]:
  "mode (liveRestore h fsok wa s) = mode s"
  "isRunning (liveRestore h fsok wa s) = isRunning s"
  "walletAddress (liveRestore h fsok wa s) = walletAddress s"
proof -
  obtain b s' where eq: "loadWalletState h fsok wa s = (b, s')"
    by (cases "loadWalletState h fsok wa s")
  have "mode s' = mode s" "isRunning s' = isRunning s" "walletAddress s' = walletAddress s"
    using loadWalletState_ctl[of h fsok wa s] by (simp_all add: eq)
  then show "mode (liveRestore h fsok wa s) = mode s"
    "isRunning (liveRestore h fsok wa s) = isRunning s"
    "walletAddress (liveRestore h fsok wa s) = walletAddress s"
    by (cases b; simp add: liveRestore_def eq)+
qed

lemma falsy_None [simp]: "falsy None"
  by (simp add: falsy_def)

lemma startTrading_identity:
  assumes "liveIdentity s" "\<not> dropsIdentity (StartTrading sock m fsok) s"
  shows "liveIdentity (snd (startTrading h fsok now sock m s))"
  using assms
  by (auto simp: startTrading_def Let_def liveIdentity_def dropsIdentity_def
        startMarketDataTrading_def demoReset_def noWallet_def addrOf_def split: jsaddr.splits)

lemma startTrading_drops:
  assumes "\<not> isRunning s" "requestedMode m \<noteq> ''demo''" "requestedMode m \<noteq> ''live''"
  shows "isRunning (snd (startTrading h fsok now sock m s))"
    and "mode (snd (startTrading h fsok now sock m s)) = requestedMode m"
    and "walletAddress (snd (startTrading h fsok now sock m s)) = None"
  using assms by (simp_all add: startTrading_def Let_def startMarketDataTrading_def)

lemma tradeExecuted_ctl [simp]:
  "mode (tradeExecuted r now i succ s) = mode s"
  "isRunning (tradeExecuted r now i succ s) = isRunning s"
  "walletAddress (tradeExecuted r now i succ s) = walletAddress s"
  by (simp_all add: tradeExecuted_def Let_def split: option.splits)

lemma tickEnd_ctl [simp]:
  "mode (tickEnd now outcome s) = mode s"
  "isRunning (tickEnd now outcome s) = isRunning s"
  "walletAddress (tickEnd now outcome s) = walletAddress s"
  by (simp_all add: tickEnd_def Let_def split: option.splits)

lemma withdraw_ctl [simp]:
  "mode (snd (withdraw amount s)) = mode s"
  "isRunning (snd (withdraw amount s)) = isRunning s"
  "walletAddress (snd (withdraw amount s)) = walletAddress s"
  by (simp_all add: withdraw_def Let_def split: option.splits)

lemma configure_ctl [simp]:
  "mode (snd (configure pct en s)) = mode s"
  "isRunning (snd (configure pct en s)) = isRunning s"
  "walletAddress (snd (configure pct en s)) = walletAddress s"
  by (simp_all add: configure_def Let_def split: option.splits)

lemma step_identity:
  assumes "liveIdentity s" "\<not> dropsIdentity ev s"
  shows "liveIdentity (step h (now, ev) s)"
proof (cases ev)
  case (StartTrading sock m fsok)
  then show ?thesis using assms by (simp add: startTrading_identity)
next
  case (DisconnectWallet sock fsok)
  then show ?thesis using assms
    by (auto simp: liveIdentity_def dropsIdentity_def disconnectWallet_def Let_def)
next
  case (ConnectWallet sock addr fsok)
  then show ?thesis using assms(1)
    by (auto simp: liveIdentity_def connectWallet_def Let_def liveTradingEnabled_def DEMO_MODE_def
          split: option.splits)
next
  case (StopTrading fsok)
  then show ?thesis using assms(1)
    by (auto simp: liveIdentity_def stopTrading_def Let_def)
next
  case (SocketDisconnect sock fsok)
  then show ?thesis using assms(1)
    by (auto simp: liveIdentity_def socketDisconnect_def Let_def)
qed (use assms(1) in \<open>simp_all add: liveIdentity_def tickBegin_def toggleMLSocket_def
       toggleMLRest_def secureSetup_def\<close>)

lemma run_identity:
  "liveIdentity s \<Longrightarrow> keepsIdentity h es s \<Longrightarrow> liveIdentity (run h es s)"
proof (induction es arbitrary: s)
  case Nil
  then show ?case by simp
next
  case (Cons e es)
  obtain now ev where e: "e = (now, ev)" by (cases e)
  from Cons.prems have "liveIdentity (step h e s)"
    unfolding e by (simp add: step_identity)
  with Cons show ?case by simp
qed

lemma step_drops:
  assumes "dropsIdentity ev s"
  shows "\<not> liveIdentity (step h (now, ev) s)"
proof (cases ev)
  case (DisconnectWallet sock fsok)
  then show ?thesis using assms
    by (auto simp: liveIdentity_def dropsIdentity_def disconnectWallet_def Let_def)
next
  case (StartTrading sock m fsok)
  then have a: "\<not> isRunning s" "requestedMode m \<noteq> ''demo''" "requestedMode m \<noteq> ''live''"
    using assms by (simp_all add: dropsIdentity_def)
  show ?thesis
    using startTrading_drops[OF a, of h fsok now sock] a(2)
    by (simp add: StartTrading liveIdentity_def)
qed (use assms in \<open>simp_all add: dropsIdentity_def\<close>)

text \<open>
  C2, as the code has it. Call a session live when its mode is not \<open>'demo'\<close> (the branch
  the start handler marks as live mode). Along every run without the two kinds of event
  named by \<open>dropsIdentity\<close> (a \<open>disconnect_wallet\<close> from the socket holding the live
  address while a live session runs; a start request, while no session runs, whose mode
  is neither \<open>'demo'\<close> nor \<open>'live'\<close>), a session that is live and running has a non-null
  wallet address. Each of these events does leave a live running session without an
  address. A \<open>start_trading\<close> request for mode \<open>'live'\<close> from a socket without a
  connected wallet is answered with an error and leaves the whole state (mode, running
  flag and ledger included) as it was.
\<close>

theorem live_requires_identity:
  "(liveIdentity s \<and> keepsIdentity h es s \<longrightarrow> liveIdentity (run h es s)) \<and>
   (dropsIdentity e s \<longrightarrow> \<not> liveIdentity (step h (now, e) s)) \<and>
   (requestedMode m = ''live'' \<and> noWallet (sockets s sock) \<longrightarrow>
      startTrading h fsok now' sock m s =
        (Inl ''Wallet connection required for live trading.'', s))"
  using run_identity step_drops by (auto simp: startTrading_def Let_def)

text \<open>
  C2 at concrete inputs: a live session started after connecting \<open>abc\<close>; a
  \<open>disconnect_wallet\<close> from a socket that never connected a wallet, which is not among
  the excluded events; the \<open>disconnect_wallet\<close> of the holder, which is; and a live start
  without a wallet at the initial state.
\<close>

theorem live_requires_identity_witness:
  "liveIdentity (initialState None emptyDisk) \<and>
   keepsIdentity sampleHash (take 2 disconnectTrace) (initialState None emptyDisk) \<and>
   liveIdentity (run sampleHash (take 2 disconnectTrace) (initialState None emptyDisk)) \<and>
   mode (run sampleHash (take 2 disconnectTrace) (initialState None emptyDisk)) = ''live'' \<and>
   isRunning (run sampleHash (take 2 disconnectTrace) (initialState None emptyDisk)) \<and>
   walletAddress (run sampleHash (take 2 disconnectTrace) (initialState None emptyDisk)) = Some ''abc'' \<and>
   keepsIdentity sampleHash [(0, DisconnectWallet 0 True)] (initialState None emptyDisk) \<and>
   dropsIdentity (DisconnectWallet 0 True)
     (run sampleHash (take 2 disconnectTrace) (initialState None emptyDisk)) \<and>
   \<not> liveIdentity (run sampleHash disconnectTrace (initialState None emptyDisk)) \<and>
   startTrading sampleHash True 0 0 (Some ''live'') (initialState None emptyDisk)
     = (Inl ''Wallet connection required for live trading.'', initialState None emptyDisk)"
proof -
  let ?i = "initialState None emptyDisk"
  let ?s = "run sampleHash (take 2 disconnectTrace) ?i"
  have i: "liveIdentity ?i"
    by (simp add: liveIdentity_def initialState_def)
  have k: "keepsIdentity sampleHash (take 2 disconnectTrace) ?i"
    by (simp add: disconnectTrace_def dropsIdentity_def requestedMode_def)
  have k0: "keepsIdentity sampleHash [(0, DisconnectWallet 0 True)] ?i"
    by (simp add: dropsIdentity_def initialState_def)
  have f: "requestedMode (Some ''live'') = ''live'' \<and> noWallet (sockets ?i 0)"
    by (simp add: requestedMode_def initialState_def noWallet_def)
  have r: "mode ?s = ''live'' \<and> isRunning ?s \<and> walletAddress ?s = Some ''abc'' \<and>
      sockets ?s 0 = Addr ''abc''"
    by (simp add: disconnectTrace_def initialState_def emptyDisk_def sampleHash_def
        connectWallet_def liveTradingEnabled_def DEMO_MODE_def falsy_def startTrading_def
        requestedMode_def noWallet_def addrOf_def liveRestore_def loadWalletState_def
        startMarketDataTrading_def Let_def)
  have d: "dropsIdentity (DisconnectWallet 0 True) ?s"
    using r by (simp add: dropsIdentity_def sameAddr_def)
  have e: "run sampleHash disconnectTrace ?i = step sampleHash (2, DisconnectWallet 0 True) ?s"
    by (simp add: disconnectTrace_def)
  from live_requires_identity [where s = ?i and h = sampleHash and es = "take 2 disconnectTrace"
      and e = "DisconnectWallet 0 True" and now = 2 and m = "Some ''live''" and sock = 0
      and fsok = True and now' = 0]
  have a: "liveIdentity ?s"
    and b: "startTrading sampleHash True 0 0 (Some ''live'') ?i
              = (Inl ''Wallet connection required for live trading.'', ?i)"
    using i k f by blast+
  from live_requires_identity [where s = ?s and h = sampleHash and es = "[]"
      and e = "DisconnectWallet 0 True" and now = 2 and m = "Some ''live''" and sock = 0
      and fsok = True and now' = 0]
  have c: "\<not> liveIdentity (run sampleHash disconnectTrace ?i)"
    using d by (simp only: e) blast
  from a b c i k k0 r d show ?thesis by blast
qed

text \<open>
  C2 as stated fails: after \<open>abc\<close> connects, starts a live session and sends
  \<open>disconnect_wallet\<close>, the session is live and running and has no wallet address. And
  a start request whose mode is spelled \<open>Live\<close> is accepted from a socket without a
  wallet: it takes the live branch and leaves a running session with no wallet address.
\<close>

theorem live_without_identity_counterexample:
  "mode (run sampleHash disconnectTrace (initialState None emptyDisk)) = ''live'' \<and>
   isRunning (run sampleHash disconnectTrace (initialState None emptyDisk)) \<and>
   walletAddress (run sampleHash disconnectTrace (initialState None emptyDisk)) = None \<and>
   sockets (initialState None emptyDisk) 0 = Undef \<and>
   fst (startTrading sampleHash True 0 0 (Some ''Live'') (initialState None emptyDisk)) = Inr ''Live'' \<and>
   mode (run sampleHash capitalTrace (initialState None emptyDisk)) = ''Live'' \<and>
   isRunning (run sampleHash capitalTrace (initialState None emptyDisk)) \<and>
   walletAddress (run sampleHash capitalTrace (initialState None emptyDisk)) = None"
  by (simp add: disconnectTrace_def capitalTrace_def initialState_def emptyDisk_def sampleHash_def
      connectWallet_def liveTradingEnabled_def DEMO_MODE_def falsy_def startTrading_def
      requestedMode_def noWallet_def addrOf_def sameAddr_def
      liveRestore_def loadWalletState_def startMarketDataTrading_def disconnectWallet_def
      saveWalletState_def Let_def)

subsection \<open>Restoring a live session\<close>

text \<open>
  Every accepted start ends in \<open>startMarketDataTrading\<close>, which installs the demo
  ledger whatever the mode and whatever was loaded before.
\<close>

lemma accepted_start_resets_ledger:
  "startAccepted sock m s \<Longrightarrow>
     pvalue (portfolio (snd (startTrading h fsok now sock m s))) = Fin 50 \<and>
     trades (snd (startTrading h fsok now sock m s)) = [] \<and>
     lockedBalance (lock (snd (startTrading h fsok now sock m s))) = Fin 0 \<and>
     totalLocked (lock (snd (startTrading h fsok now sock m s))) = Fin 0"
  by (auto simp: startTrading_def startAccepted_def Let_def startMarketDataTrading_def)

text \<open>
  The store itself round-trips: loading an address right after saving it brings back the
  portfolio, the trade log, the profit lock and the scorer statistics that were saved (as
  JSON gives them back), whatever the ledger has become in between.
\<close>

lemma save_then_load_restores:
  assumes "a \<noteq> []"
  shows "loadWalletState h True (Some a)
           ((snd (saveWalletState h True now (Some a) s))\<lparr> portfolio := p, trades := ts, lock := l \<rparr>)
         = (True, (snd (saveWalletState h True now (Some a) s))\<lparr> portfolio := jsonPortfolio (portfolio s),
              trades := trades s, lock := jsonLock (lock s), stats := stats s \<rparr>)"
  using assms by (simp add: loadWalletState_def saveWalletState_def)

text \<open>
  C1 fails on the code. After the run \<open>raceTrace\<close> a live session for \<open>abc\<close> has been
  stopped with balance 55, one trade and \<open>lockedBalance\<close> 1, and the wallet file holds
  exactly these; the next live start for \<open>abc\<close> is accepted and leaves balance 50, no
  trade and \<open>lockedBalance\<close> 0.
\<close>

theorem live_restart_resets_ledger:
  "mode (run sampleHash raceTrace (initialState None emptyDisk)) = ''live'' \<and>
   \<not> isRunning (run sampleHash raceTrace (initialState None emptyDisk)) \<and>
   walletAddress (run sampleHash raceTrace (initialState None emptyDisk)) = Some ''abc'' \<and>
   map_option (\<lambda>w. (pvalue (wsPortfolio w), length (wsTrades w), lockedBalance (wsProfitLock w)))
     (files (run sampleHash raceTrace (initialState None emptyDisk)) (sampleHash ''abc''))
     = Some (Fin 55, 1, Fin 1) \<and>
   pvalue (portfolio (run sampleHash raceTrace (initialState None emptyDisk))) = Fin 55 \<and>
   length (trades (run sampleHash raceTrace (initialState None emptyDisk))) = 1 \<and>
   lockedBalance (lock (run sampleHash raceTrace (initialState None emptyDisk))) = Fin 1 \<and>
   isRunning (step sampleHash (7, StartTrading 0 (Some ''live'') True)
     (run sampleHash raceTrace (initialState None emptyDisk))) \<and>
   pvalue (portfolio (step sampleHash (7, StartTrading 0 (Some ''live'') True)
     (run sampleHash raceTrace (initialState None emptyDisk)))) = Fin 50 \<and>
   length (trades (step sampleHash (7, StartTrading 0 (Some ''live'') True)
     (run sampleHash raceTrace (initialState None emptyDisk)))) = 0 \<and>
   lockedBalance (lock (step sampleHash (7, StartTrading 0 (Some ''live'') True)
     (run sampleHash raceTrace (initialState None emptyDisk)))) = Fin 0"
  by (simp add: Let_def raceTrace_def initialState_def emptyDisk_def sampleHash_def connectWallet_def
      liveTradingEnabled_def DEMO_MODE_def falsy_def noWallet_def addrOf_def sameAddr_def
      startTrading_def requestedMode_def
      liveRestore_def loadWalletState_def startMarketDataTrading_def disconnectWallet_def
      saveWalletState_def demoReset_def tickBegin_def tickEnd_def stopTrading_def updatePortfolio_def
      jsonPortfolio_def jsonLock_def)

section \<open>The price resolver\<close>





lemma positivePrice_Some:
  "positivePrice rep = Some p \<longleftrightarrow> rep = Reply 200 (Some (Num p)) \<and> 0 < p"
  by (auto simp: positivePrice_def split: reply.splits option.splits jsval.splits)





lemma jupiterBlock_positive:
  "positivePrice (jupiterPrice up a) = Some p \<Longrightarrow> fst (jupiterBlock up a src) = (Num p, ''Jupiter'')"
  by (simp add: positivePrice_Some jupiterBlock_def)















text \<open>A Helius price that is zero is not passed over: the fallback is taken on
  \<open>price === null\<close> only, so nothing else is asked and the result is \<open>null\<close>, although
  Jupiter has a positive price.\<close>

lemma zero_oracle_price_ends_search:
  "positivePrice (jupiterPrice zeroThenFive ''mint'') = Some 5 \<and>
   getTokenPrice zeroThenFive 0 ''mint'' newDexConnector
     = (None, [HeliusGetAsset ''mint''], newDexConnector)"
  by (simp add: cachedPrice_def newDexConnector_def positivePrice_def
      zeroThenFive_def getTokenPrice_def heliusBlock_def queryUpstreams_def)

section \<open>The tradeability check\<close>

lemma USDC_nonempty: "USDC_ADDRESS \<noteq> []"
  by (simp add: USDC_ADDRESS_def)

lemma two60_less: "(2::real) ^ 60 < 2 ^ 1024"
  by (rule power_strict_increasing) simp_all

lemma tiny_le: "(1::real) / 2 ^ 1075 \<le> 1 / 2 ^ 60"
proof -
  have "(2::real) ^ 60 \<le> 2 ^ 1075" by (rule power_increasing) simp_all
  then show ?thesis by (simp add: field_simps del: power_increasing_iff)
qed

lemma nearest_err60: "\<bar>nearest x - x\<bar> \<le> \<bar>x\<bar> / 2 ^ 53 + 1 / 2 ^ 60"
  using nearest_error[of x] tiny_le by linarith

lemma nearest_pow2: "- 1074 \<le> k \<Longrightarrow> nearest (pow2 k) = pow2 k" "- 1074 \<le> k \<Longrightarrow> nearest (- pow2 k) = - pow2 k"
  using nearest_fixed[of 1 k] nearest_fixed[of "- 1" k] by simp_all

lemma floor_bounds:
  assumes "1 \<le> x" "x \<le> 2 ^ 53"
  shows "1 \<le> \<lfloor>x\<rfloor>" "\<lfloor>x\<rfloor> \<le> 2 ^ 53" "\<bar>\<lfloor>x\<rfloor>\<bar> \<le> 2 ^ 53"
proof -
  show a: "1 \<le> \<lfloor>x\<rfloor>" using assms(1) by (simp add: le_floor_iff)
  have "x < of_int (2 ^ 53) + 1" using assms(2) by simp
  then show b: "\<lfloor>x\<rfloor> \<le> 2 ^ 53" by (simp only: floor_le_iff)
  show "\<bar>\<lfloor>x\<rfloor>\<bar> \<le> 2 ^ 53" using a b by linarith
qed

lemma parseInt_amount:
  assumes "1 \<le> x" "x \<le> 2 ^ 53"
  shows "parseInt x = Fin (of_int \<lfloor>x\<rfloor>)"
  using round64_of_int[OF floor_bounds(3)[OF assms]] by (simp add: parseInt_def)

lemma usableOut_amount:
  assumes "1 \<le> x"
  shows "usableOut (Some \<lparr> outAmount = Some x \<rparr>) = Some x"
proof -
  have "dle (round64 1) (round64 x)" using assms by (rule round64_mono)
  then have "\<not> dle (round64 x) (Fin 0)"
    by (cases "round64 x") simp_all
  then show ?thesis using assms by (simp add: usableOut_def)
qed

lemma mathRound_int: "\<bar>n\<bar> \<le> 2 ^ 53 \<Longrightarrow> mathRound (Fin (of_int n)) = Fin (of_int n)"
proof -
  assume a: "\<bar>n\<bar> \<le> 2 ^ 53"
  have "\<lfloor>real_of_int n + 1 / 2\<rfloor> = n" by linarith
  then show ?thesis using round64_of_int[OF a] by (simp add: mathRound_def)
qed

lemma getQuote_ok:
  assumes "i \<noteq> []" "out \<noteq> []" "1 \<le> n" "n \<le> 2 ^ 53" "sl \<noteq> 0"
    "jupiterQuote up i out (Fin (of_int n)) sl = Reply 200 d"
  shows "getQuote up i out (Fin (of_int n)) sl c = (d, [JupiterQuote i out (Fin (of_int n)) sl])"
proof -
  have a: "\<bar>n\<bar> \<le> 2 ^ 53" using assms(3,4) by linarith
  have p: "(0::real) < of_int n" using assms(3) by simp
  show ?thesis
    using assms(1,2,5,6) p by (simp add: getQuote_def Let_def mathRound_int[OF a])
qed

text \<open>The three roundings of the slippage computation on a reverse output of \<open>n\<close>
  micro-USDC.\<close>

lemma slippage_value:
  assumes "1 \<le> n" "n \<le> 2 ^ 53"
  defines "r \<equiv> real_of_int n / 1000000"
  defines "s \<equiv> nearest (1 - nearest r)"
  shows "ddiv (Fin (of_int n)) (Fin 1000000) = Fin (nearest r)"
    and "dsub (Fin 1) (Fin (nearest r)) = Fin s"
    and "dmul (Fin s) (Fin 100) = Fin (nearest (s * 100))"
    and "\<bar>nearest (s * 100) - 100 * (1 - r)\<bar> \<le> (1 + r) / 2 ^ 43"
proof -
  have n: "(1::real) \<le> of_int n" "real_of_int n \<le> 2 ^ 53"
  proof -
    show "(1::real) \<le> of_int n" using assms(1) by simp
    have "real_of_int n \<le> of_int (2 ^ 53)" using assms(2) by (simp only: of_int_le_iff)
    then show "real_of_int n \<le> 2 ^ 53" by simp
  qed
  have r0: "0 \<le> r" "r \<le> 2 ^ 53" using n by (simp_all add: r_def)
  have u0: "0 \<le> nearest r" using r0(1) by (rule nearest_nonneg)
  have "nearest r \<le> nearest (of_int (2 ^ 53))" using r0(2) by (intro nearest_mono) simp
  then have u1: "nearest r \<le> 2 ^ 53" using nearest_of_int[of "2 ^ 53"] by simp
  have "nearest (1 - nearest r) \<le> nearest (of_int 1)" using u0 by (intro nearest_mono) simp
  then have s1: "s \<le> 1" using nearest_of_int[of 1] by (simp add: s_def)
  have "nearest (of_int (1 - 2 ^ 53)) \<le> nearest (1 - nearest r)"
    using u1 by (intro nearest_mono) simp
  then have s0: "1 - 2 ^ 53 \<le> s" using nearest_of_int[of "1 - 2 ^ 53"] by (simp add: s_def)
  have np: "nearest (2 ^ 60) = 2 ^ 60" "nearest (- (2 ^ 60)) = - (2 ^ 60)"
    using nearest_fixed[of 1 60] nearest_fixed[of "- 1" 60] by (simp_all add: pow2_int)
  have "nearest (s * 100) \<le> nearest (2 ^ 60)" using s1 by (intro nearest_mono) simp
  then have v1: "nearest (s * 100) \<le> 2 ^ 60" by (simp only: np)
  have "nearest (- (2 ^ 60)) \<le> nearest (s * 100)" using s0 by (intro nearest_mono) simp
  then have v0: "- (2 ^ 60) \<le> nearest (s * 100)" by (simp only: np)
  have b53: "(2::real) ^ 53 < 2 ^ 1024" by (rule two53_less)
  have b60: "(2::real) ^ 60 < 2 ^ 1024" by (rule two60_less)
  have "\<bar>nearest r\<bar> < 2 ^ 1024" using u0 u1 b53 by linarith
  then have "round64 r = Fin (nearest r)" by (rule round64_nearest)
  then show "ddiv (Fin (of_int n)) (Fin 1000000) = Fin (nearest r)" by (simp add: r_def)
  have one53: "(1::real) \<le> 2 ^ 53" by simp
  have "\<bar>s\<bar> < 2 ^ 1024" using s0 s1 b53 one53 by linarith
  then have "round64 (1 - nearest r) = Fin s" unfolding s_def by (rule round64_nearest)
  then show "dsub (Fin 1) (Fin (nearest r)) = Fin s" by (simp add: dsub_def)
  have "\<bar>nearest (s * 100)\<bar> < 2 ^ 1024" using v0 v1 b60 by linarith
  then have "round64 (s * 100) = Fin (nearest (s * 100))" by (rule round64_nearest)
  then show "dmul (Fin s) (Fin 100) = Fin (nearest (s * 100))" by simp
  have k: "(2::real) ^ 53 = 9007199254740992" "(2::real) ^ 60 = 1152921504606846976"
    "(2::real) ^ 43 = 8796093022208" by simp_all
  have e1: "\<bar>nearest r - r\<bar> \<le> r / 9007199254740992 + 1 / 1152921504606846976"
    using nearest_err60[of r] r0(1) by (simp only: k abs_of_nonneg)
  have e2: "\<bar>s - (1 - nearest r)\<bar>
      \<le> \<bar>1 - nearest r\<bar> / 9007199254740992 + 1 / 1152921504606846976"
    unfolding s_def using nearest_err60[of "1 - nearest r"] by (simp only: k)
  have e3: "\<bar>nearest (s * 100) - s * 100\<bar>
      \<le> \<bar>s * 100\<bar> / 9007199254740992 + 1 / 1152921504606846976"
    using nearest_err60[of "s * 100"] by (simp only: k)
  have u2: "nearest r \<le> 2 * r + 1" using e1 r0(1) by linarith
  have a1: "\<bar>1 - nearest r\<bar> \<le> 2 * r + 2" using u0 u2 by linarith
  have e2': "\<bar>s - (1 - nearest r)\<bar>
      \<le> (2 * r + 2) / 9007199254740992 + 1 / 1152921504606846976"
  proof -
    have "\<bar>1 - nearest r\<bar> / 9007199254740992 \<le> (2 * r + 2) / 9007199254740992"
      using a1 by (intro divide_right_mono) simp_all
    then show ?thesis using e2 by linarith
  qed
  have c: "(2 * r + 2) / 9007199254740992 + 1 / 1152921504606846976 \<le> 2 * r + 3"
    using r0(1) by (simp add: field_simps)
  have t: "\<bar>s\<bar> \<le> \<bar>s - (1 - nearest r)\<bar> + \<bar>1 - nearest r\<bar>" by linarith
  have s2: "\<bar>s\<bar> \<le> 4 * r + 5" using e2' a1 c t by linarith
  have "\<bar>s * 100\<bar> = \<bar>s\<bar> * 100" by (simp add: abs_mult)
  then have s3: "\<bar>s * 100\<bar> \<le> 400 * r + 500" using s2 by linarith
  have e3': "\<bar>nearest (s * 100) - s * 100\<bar>
      \<le> (400 * r + 500) / 9007199254740992 + 1 / 1152921504606846976"
  proof -
    have "\<bar>s * 100\<bar> / 9007199254740992 \<le> (400 * r + 500) / 9007199254740992"
      using s3 by (intro divide_right_mono) simp_all
    then show ?thesis using e3 by linarith
  qed
  have t2: "\<bar>nearest (s * 100) - 100 * (1 - r)\<bar>
      \<le> \<bar>nearest (s * 100) - s * 100\<bar> + 100 * \<bar>s - (1 - nearest r)\<bar>
        + 100 * \<bar>nearest r - r\<bar>"
  proof -
    let ?a = "nearest (s * 100) - s * 100" and ?b = "s - (1 - nearest r)" and ?c = "r - nearest r"
    have eq: "nearest (s * 100) - 100 * (1 - r) = ?a + 100 * ?b + 100 * ?c" by simp
    have "\<bar>?a + 100 * ?b + 100 * ?c\<bar> \<le> \<bar>?a\<bar> + \<bar>100 * ?b\<bar> + \<bar>100 * ?c\<bar>"
      using abs_triangle_ineq[of "?a + 100 * ?b" "100 * ?c"] abs_triangle_ineq[of ?a "100 * ?b"]
      by linarith
    moreover have "\<bar>100 * ?b\<bar> = 100 * \<bar>?b\<bar>" "\<bar>100 * ?c\<bar> = 100 * \<bar>?c\<bar>"
      by (simp_all only: abs_mult abs_numeral)
    moreover have "\<bar>?c\<bar> = \<bar>nearest r - r\<bar>" by (rule abs_minus_commute)
    ultimately show ?thesis by (simp only: eq)
  qed
  have c2: "((400 * r + 500) / 9007199254740992 + 1 / 1152921504606846976)
      + 100 * ((2 * r + 2) / 9007199254740992 + 1 / 1152921504606846976)
      + 100 * (r / 9007199254740992 + 1 / 1152921504606846976) \<le> (1 + r) / 8796093022208"
    using r0(1) by (simp add: field_simps)
  have "\<bar>nearest (s * 100) - s * 100\<bar> + 100 * \<bar>s - (1 - nearest r)\<bar>
      + 100 * \<bar>nearest r - r\<bar>
      \<le> ((400 * r + 500) / 9007199254740992 + 1 / 1152921504606846976)
      + 100 * ((2 * r + 2) / 9007199254740992 + 1 / 1152921504606846976)
      + 100 * (r / 9007199254740992 + 1 / 1152921504606846976)"
    by (intro add_mono mult_left_mono e1 e2' e3') simp_all
  then have "\<bar>nearest (s * 100) - 100 * (1 - r)\<bar> \<le> (1 + r) / 8796093022208"
    using t2 c2 by (meson order_trans)
  then show "\<bar>nearest (s * 100) - 100 * (1 - r)\<bar> \<le> (1 + r) / 2 ^ 43" by (simp only: k)
qed

text \<open>The comparison with the literal \<open>0.10\<close> decides as the exact loss does.\<close>

lemma tenth: "round64 (1 / 10) = Fin (7205759403792794 / 2 ^ 56)"
  using round64_up[of 7205759403792793 "1/10" 56] by simp

lemma slippage_threshold:
  assumes "1 \<le> n"
  defines "r \<equiv> real_of_int n / 1000000"
  shows "(7205759403792794 / 2 ^ 56 < nearest (1 - nearest r)) \<longleftrightarrow> \<not> (1 - r \<le> 1 / 10)"
proof (cases "900000 \<le> n")
  case True
  then have "(900000::real) \<le> of_int n" by simp
  then have r: "9 / 10 \<le> r" by (simp add: r_def)
  have "nearest (9 / 10) \<le> nearest r" using r by (rule nearest_mono)
  then have "1 - nearest r \<le> 1 - 8106479329266893 / 2 ^ 53" by (simp add: nearest_9_10)
  then have "nearest (1 - nearest r) \<le> nearest (1 - 8106479329266893 / 2 ^ 53)"
    by (rule nearest_mono)
  also have "(1 - 8106479329266893 / 2 ^ 53 :: real) = of_int 900719925474099 / 2 ^ 53" by simp
  also have "nearest (of_int 900719925474099 / 2 ^ 53) = of_int 900719925474099 / 2 ^ 53"
    by (rule nearest_exact) simp_all
  finally have "nearest (1 - nearest r) \<le> 900719925474099 / 2 ^ 53" by simp
  then have "\<not> (7205759403792794 / 2 ^ 56 < nearest (1 - nearest r))" by simp
  then show ?thesis using r by simp
next
  case False
  then have "n \<le> 899999" by simp
  then have "real_of_int n \<le> 899999" by linarith
  then have r: "r \<le> 899999 / 1000000" by (simp add: r_def)
  have "r \<le> of_int 1887436 / 2 ^ 21" using r by simp
  then have "nearest r \<le> nearest (of_int 1887436 / 2 ^ 21)" by (rule nearest_mono)
  also have "\<dots> = of_int 1887436 / 2 ^ 21" by (rule nearest_exact) simp_all
  finally have "of_int 209716 / 2 ^ 21 \<le> 1 - nearest r" by simp
  then have "nearest (of_int 209716 / 2 ^ 21) \<le> nearest (1 - nearest r)" by (rule nearest_mono)
  moreover have "nearest (of_int 209716 / 2 ^ 21) = of_int 209716 / 2 ^ 21"
    by (rule nearest_exact) simp_all
  ultimately have "209716 / 2 ^ 21 \<le> nearest (1 - nearest r)" by simp
  then have "7205759403792794 / 2 ^ 56 < nearest (1 - nearest r)" by simp
  then show ?thesis using r by simp
qed

text \<open>
  C5, as the code has it. When the asset has a positive price, the forward quote for
  1000000 micro-USDC reports an output \<open>O\<close> and the reverse quote an output \<open>R\<close>, both
  between 1 and \<open>2 ^ 53\<close>: the reverse quote is requested for the integer part of \<open>O\<close>
  (for an integer amount, \<open>O\<close> itself) and not for the nominal input; the returned
  \<open>impliedSlippage\<close> is a number within \<open>(1 + R / 1000000) / 2 ^ 43\<close> of one hundred
  times the round-trip loss \<open>1 - R / 1000000\<close> (on the integer part of \<open>R\<close>), a
  percentage; and the asset is reported tradeable exactly when the exact loss is at most
  \<open>0.10\<close>, with the excessive-slippage reason otherwise.
\<close>

theorem tradeability_roundtrip:
  assumes tok: "tok \<noteq> []"
    and price: "getTokenPrice up now tok c = (Some p, reqs1, c1)" "0 < p"
    and buy: "jupiterQuote up USDC_ADDRESS tok (Fin 1000000) 100
                = Reply 200 (Some \<lparr> outAmount = Some buyOut \<rparr>)"
         "1 \<le> buyOut" "buyOut \<le> 2 ^ 53"
    and sell: "jupiterQuote up tok USDC_ADDRESS (Fin (of_int \<lfloor>buyOut\<rfloor>)) 100
                = Reply 200 (Some \<lparr> outAmount = Some sellOut \<rparr>)"
         "1 \<le> sellOut" "sellOut \<le> 2 ^ 53"
  shows "\<exists>v. isTokenTradeable up now tok c =
           (\<lparr> tradeable = (1 - of_int \<lfloor>sellOut\<rfloor> / 1000000 \<le> (1 / 10 :: real)),
              reason = (if 1 - of_int \<lfloor>sellOut\<rfloor> / 1000000 \<le> (1 / 10 :: real) then None
                        else Some ''Excessive slippage indicates low liquidity''),
              impliedSlippage = Some (Fin v),
              tokenPrice = Some p \<rparr>,
            reqs1 @ [JupiterQuote USDC_ADDRESS tok (Fin 1000000) 100,
                     JupiterQuote tok USDC_ADDRESS (Fin (of_int \<lfloor>buyOut\<rfloor>)) 100], c1) \<and>
         \<bar>v - 100 * (1 - of_int \<lfloor>sellOut\<rfloor> / 1000000)\<bar>
           \<le> (1 + of_int \<lfloor>sellOut\<rfloor> / 1000000) / 2 ^ 43"
proof -
  let ?O = "\<lfloor>buyOut\<rfloor>" and ?R = "\<lfloor>sellOut\<rfloor>"
  let ?r = "real_of_int ?R / 1000000"
  let ?s = "nearest (1 - nearest ?r)"
  have m: "(Fin 1000000 :: double) = Fin (of_int 1000000)" by simp
  have q1: "getQuote up USDC_ADDRESS tok (Fin 1000000) 100 c1 =
              (Some \<lparr> outAmount = Some buyOut \<rparr>, [JupiterQuote USDC_ADDRESS tok (Fin 1000000) 100])"
    using getQuote_ok[OF USDC_nonempty tok, of 1000000 100 up _ c1] buy(1) by (simp only: m) simp
  have q2: "getQuote up tok USDC_ADDRESS (Fin (of_int ?O)) 100 c1 =
              (Some \<lparr> outAmount = Some sellOut \<rparr>, [JupiterQuote tok USDC_ADDRESS (Fin (of_int ?O)) 100])"
    using getQuote_ok[OF tok USDC_nonempty floor_bounds(1,2)[OF buy(2,3)] _ sell(1), of c1] by simp
  have u1: "usableOut (Some \<lparr> outAmount = Some buyOut \<rparr>) = Some buyOut"
    by (rule usableOut_amount[OF buy(2)])
  have u2: "usableOut (Some \<lparr> outAmount = Some sellOut \<rparr>) = Some sellOut"
    by (rule usableOut_amount[OF sell(2)])
  have p1: "parseInt buyOut = Fin (of_int ?O)" by (rule parseInt_amount[OF buy(2,3)])
  have p2: "parseInt sellOut = Fin (of_int ?R)" by (rule parseInt_amount[OF sell(2,3)])
  note sv = slippage_value[OF floor_bounds(1,2)[OF sell(2,3)]]
  note th = slippage_threshold[OF floor_bounds(1)[OF sell(2,3)]]
  have "isTokenTradeable up now tok c =
          (if dlt (round64 (1 / 10)) (Fin ?s)
              then (\<lparr> tradeable = False,
                       reason = Some ''Excessive slippage indicates low liquidity'',
                       impliedSlippage = Some (Fin (nearest (?s * 100))), tokenPrice = Some p \<rparr>,
                    reqs1 @ [JupiterQuote USDC_ADDRESS tok (Fin 1000000) 100] @
                      [JupiterQuote tok USDC_ADDRESS (Fin (of_int ?O)) 100], c1)
              else (\<lparr> tradeable = True, reason = None,
                       impliedSlippage = Some (Fin (nearest (?s * 100))), tokenPrice = Some p \<rparr>,
                    reqs1 @ [JupiterQuote USDC_ADDRESS tok (Fin 1000000) 100] @
                      [JupiterQuote tok USDC_ADDRESS (Fin (of_int ?O)) 100], c1))"
    unfolding isTokenTradeable_def price(1) Let_def
    using tok price(2)
    by (simp only: q1 u1 p1 q2 u2 p2 sv(1,2,3) if_False prod.case option.case) simp
  then have "isTokenTradeable up now tok c =
           (\<lparr> tradeable = (1 - ?r \<le> (1 / 10 :: real)),
              reason = (if 1 - ?r \<le> (1 / 10 :: real) then None
                        else Some ''Excessive slippage indicates low liquidity''),
              impliedSlippage = Some (Fin (nearest (?s * 100))),
              tokenPrice = Some p \<rparr>,
            reqs1 @ [JupiterQuote USDC_ADDRESS tok (Fin 1000000) 100,
                     JupiterQuote tok USDC_ADDRESS (Fin (of_int ?O)) 100], c1)"
    using th by (simp add: tenth)
  with sv(4) show ?thesis by blast
qed

lemma roundTrip95_value:
  "isTokenTradeable roundTrip95 0 ''mint'' newDexConnector =
     (\<lparr> tradeable = True, reason = None,
        impliedSlippage = Some (Fin (5629499534213125 / 2 ^ 50)), tokenPrice = Some 2 \<rparr>,
      [HeliusGetAsset ''mint'', JupiterQuote USDC_ADDRESS ''mint'' (Fin 1000000) 100,
       JupiterQuote ''mint'' USDC_ADDRESS (Fin 500000) 100],
      newDexConnector\<lparr>priceCache := (priceCache newDexConnector)(''mint'' \<mapsto>
          \<lparr> price = 2, timestamp = 0, source = ''Helius'' \<rparr>)\<rparr>)"
proof -
  have g: "getTokenPrice roundTrip95 0 ''mint'' newDexConnector =
      (Some 2, [HeliusGetAsset ''mint''],
       newDexConnector\<lparr>priceCache := (priceCache newDexConnector)(''mint'' \<mapsto>
          \<lparr> price = 2, timestamp = 0, source = ''Helius'' \<rparr>)\<rparr>)"
    by (simp add: getTokenPrice_def cachedPrice_def newDexConnector_def roundTrip95_def
        queryUpstreams_def heliusBlock_def)
  have f: "\<lfloor>(2000001::real) / 2\<rfloor> = 1000000" "\<lfloor>(1000001::real) / 2\<rfloor> = 500000" by linarith+
  show ?thesis
    unfolding isTokenTradeable_def g
    using round64_down[of 8556839292003942 "95/100" 53]
      round64_dyadic[of "1 - 8556839292003942 / 2 ^ 53" 53 450359962737050]
      round64_dyadic[of "450359962737050 / 2 ^ 53 * 100" 50 5629499534213125]
      round64_up[of 7205759403792793 "1/10" 56]
    by (simp add: roundTrip95_def getQuote_def usableOut_def parseInt_def mathRound_def
        USDC_ADDRESS_def Let_def f)
qed

text \<open>
  C5 at a concrete input: one USDC buys 500000 units that sell for 950000 micro-USDC. The
  returned number is \<open>5629499534213125 / 2 ^ 50\<close>, which prints as
  \<open>5.000000000000004\<close>.
\<close>

theorem tradeability_roundtrip_witness:
  "fst (isTokenTradeable roundTrip95 0 ''mint'' newDexConnector)
     = \<lparr> tradeable = True, reason = None,
         impliedSlippage = Some (Fin (5629499534213125 / 2 ^ 50)), tokenPrice = Some 2 \<rparr> \<and>
   fst (snd (isTokenTradeable roundTrip95 0 ''mint'' newDexConnector))
     = [HeliusGetAsset ''mint'', JupiterQuote USDC_ADDRESS ''mint'' (Fin 1000000) 100,
        JupiterQuote ''mint'' USDC_ADDRESS (Fin 500000) 100] \<and>
   \<bar>5629499534213125 / 2 ^ 50 - 100 * (1 - 950000 / 1000000)\<bar>
     \<le> ((1 + 950000 / 1000000) / 2 ^ 43 :: real)"
proof -
  have n: "''mint'' \<noteq> []" by simp
  have g: "getTokenPrice roundTrip95 0 ''mint'' newDexConnector =
      (Some 2, [HeliusGetAsset ''mint''],
       newDexConnector\<lparr>priceCache := (priceCache newDexConnector)(''mint'' \<mapsto>
          \<lparr> price = 2, timestamp = 0, source = ''Helius'' \<rparr>)\<rparr>)"
    by (simp add: getTokenPrice_def cachedPrice_def newDexConnector_def roundTrip95_def
        queryUpstreams_def heliusBlock_def)
  have p: "(0::real) < 2" by simp
  have b: "jupiterQuote roundTrip95 USDC_ADDRESS ''mint'' (Fin 1000000) 100
      = Reply 200 (Some \<lparr> outAmount = Some 500000 \<rparr>)"
    by (simp add: roundTrip95_def)
  have b1: "(1::real) \<le> 500000" "(500000::real) \<le> 2 ^ 53" by simp_all
  have s: "jupiterQuote roundTrip95 ''mint'' USDC_ADDRESS (Fin (of_int \<lfloor>500000::real\<rfloor>)) 100
      = Reply 200 (Some \<lparr> outAmount = Some 950000 \<rparr>)"
    by (simp add: roundTrip95_def USDC_ADDRESS_def)
  have s1: "(1::real) \<le> 950000" "(950000::real) \<le> 2 ^ 53" by simp_all
  from tradeability_roundtrip [OF n g p b b1 s s1]
  obtain v where v: "isTokenTradeable roundTrip95 0 ''mint'' newDexConnector =
           (\<lparr> tradeable = (1 - of_int \<lfloor>950000::real\<rfloor> / 1000000 \<le> (1 / 10 :: real)),
              reason = (if 1 - of_int \<lfloor>950000::real\<rfloor> / 1000000 \<le> (1 / 10 :: real) then None
                        else Some ''Excessive slippage indicates low liquidity''),
              impliedSlippage = Some (Fin v),
              tokenPrice = Some 2 \<rparr>,
            [HeliusGetAsset ''mint''] @ [JupiterQuote USDC_ADDRESS ''mint'' (Fin 1000000) 100,
                     JupiterQuote ''mint'' USDC_ADDRESS (Fin (of_int \<lfloor>500000::real\<rfloor>)) 100],
            newDexConnector\<lparr>priceCache := (priceCache newDexConnector)(''mint'' \<mapsto>
               \<lparr> price = 2, timestamp = 0, source = ''Helius'' \<rparr>)\<rparr>)"
    and e: "\<bar>v - 100 * (1 - of_int \<lfloor>950000::real\<rfloor> / 1000000)\<bar>
           \<le> (1 + of_int \<lfloor>950000::real\<rfloor> / 1000000) / 2 ^ 43"
    by blast
  have "v = 5629499534213125 / 2 ^ 50" using v by (simp add: roundTrip95_value)
  with v e show ?thesis by simp
qed

text \<open>
  C5 as stated fails: with a reverse output of 950000 for a forward input of 1000000 the
  returned \<open>impliedSlippage\<close> is \<open>5.000000000000004\<close>, further than 4 from
  \<open>1 - 950000 / 1000000 = 0.05\<close>.
\<close>

theorem implied_slippage_counterexample:
  "impliedSlippage (fst (isTokenTradeable roundTrip95 0 ''mint'' newDexConnector))
     = Some (Fin (5629499534213125 / 2 ^ 50)) \<and>
   (4 :: real) < \<bar>5629499534213125 / 2 ^ 50 - (1 - 950000 / 1000000)\<bar>"
  by (simp add: roundTrip95_value)

end
